theory Spec2Isabelle
  imports Main "HOL-Library.Word"
begin

unbundle bit_operations_syntax

section \<open>The jwkset codec: JSON Web Keys to and from Go key objects\<close>

text \<open>
  This theory embeds the package \<^verbatim>\<open>jwkset\<close> of \<^verbatim>\<open>src/jwk.go\<close>. The file holds two
  revisions of the package, which declare the same functions, so that a build holds one of
  them. The codec is embedded from the later revision (lines 345 to 740, the one with the
  \<^verbatim>\<open>ALG\<close> field that the specification describes): \<^verbatim>\<open>KeyMarshal\<close>, \<^verbatim>\<open>KeyUnmarshal\<close>,
  \<^verbatim>\<open>base64urlTrailingPadding\<close> and \<^verbatim>\<open>bigIntToBase64RawURL\<close>. The method
  \<^verbatim>\<open>JWKSet.JSON\<close> is written out in the earlier revision only (lines 129 to 153) and is
  embedded from there, calling the codec. Where the earlier revision of the codec differs
  (it has no \<open>alg\<close>, encodes a whole Ed25519 private key into \<open>d\<close>, and rejects an OKP key
  of the wrong length with \<^verbatim>\<open>ErrUnsupportedKeyType\<close>), the later one stands.

  The functions of the Go standard library that the package calls are embedded from the
  library's own sources: \<^verbatim>\<open>encoding/base64\<close> (\<^verbatim>\<open>RawURLEncoding\<close>),
  \<^verbatim>\<open>strings.TrimRight\<close>, \<^verbatim>\<open>math/big\<close> (\<^verbatim>\<open>Bytes\<close>, \<^verbatim>\<open>SetBytes\<close>, \<^verbatim>\<open>Uint64\<close>),
  \<^verbatim>\<open>crypto/ed25519\<close> (\<^verbatim>\<open>PrivateKey.Public\<close>) and \<^verbatim>\<open>crypto/rsa\<close>
  (\<^verbatim>\<open>PrivateKey.Validate\<close>).

  Conventions. A Go \<^verbatim>\<open>string\<close> and a \<^verbatim>\<open>[]byte\<close> are sequences of bytes: \<^typ>\<open>string\<close>
  (a list of 8-bit characters) and a list of 8-bit words. A \<^verbatim>\<open>*big.Int\<close> is an \<^typ>\<open>int\<close>;
  the pointers and the curve inside a key object are taken to be non-nil. Go's \<^verbatim>\<open>int\<close> is
  a 64-bit word read as two's complement. A Go \<^verbatim>\<open>(value, error)\<close> result is a sum,
  \<^term>\<open>Inl\<close> the error; a run-time panic is the error value \<open>RuntimePanic\<close>. A field of the
  wire record is absent when it is the empty string, as \<^verbatim>\<open>omitempty\<close> has it.
\<close>

type_synonym byte = "8 word"

subsection \<open>Errors\<close>

text \<open>
  The two sentinel errors of the package, and the foreign errors it wraps with \<^verbatim>\<open>%w\<close>.
  Only the wrapped error is kept (it is what \<^verbatim>\<open>errors.Is\<close> sees), the message text is not.
\<close>

datatype rsa_error =
    errPublicExponentSmall
  | errPublicExponentLarge
  | errInvalidPrime
  | errInvalidModulus
  | errInvalidExponents

datatype error =
    ErrKeyUnmarshalParameter
  | ErrUnsupportedKeyType
  | CorruptInputError nat
  | RSAValidateError rsa_error
  | StorageError string
  | RuntimePanic

definition errors_Is :: "error \<Rightarrow> error \<Rightarrow> bool" where
  "errors_Is err target \<longleftrightarrow> err = target"

subsection \<open>encoding/base64: RawURLEncoding\<close>

definition encodeURL :: string where
  "encodeURL = ''ABCDEFGHIJKLMNOPQRSTUVWXYZabcdefghijklmnopqrstuvwxyz0123456789-_''"

definition encode :: "64 word \<Rightarrow> char" where
  "encode i = encodeURL ! unat i"

text \<open>
  \<^verbatim>\<open>Encoding.Encode\<close> without padding: three source bytes give four characters; a rest
  of two bytes gives three characters, a rest of one byte gives two.
\<close>

fun EncodeToString :: "byte list \<Rightarrow> string" where
  "EncodeToString (s0 # s1 # s2 # src) =
     (let val = push_bit 16 (ucast s0) OR push_bit 8 (ucast s1) OR ucast s2 in
        encode (drop_bit 18 val AND 0x3F) # encode (drop_bit 12 val AND 0x3F) #
        encode (drop_bit 6 val AND 0x3F) # encode (val AND 0x3F) # EncodeToString src)"
| "EncodeToString [s0, s1] =
     (let val = push_bit 16 (ucast s0) OR push_bit 8 (ucast s1) in
        [encode (drop_bit 18 val AND 0x3F), encode (drop_bit 12 val AND 0x3F),
         encode (drop_bit 6 val AND 0x3F)])"
| "EncodeToString [s0] =
     (let val = push_bit 16 (ucast s0) in
        [encode (drop_bit 18 val AND 0x3F), encode (drop_bit 12 val AND 0x3F)])"
| "EncodeToString [] = []"

text \<open>
  The decode map: \<open>0xFF\<close> everywhere, then the index of each character of the alphabet.
\<close>

definition decodeMap :: "char \<Rightarrow> byte" where
  "decodeMap c = (case map_of (zip encodeURL (map word_of_nat [0..<64])) c of
                    Some i \<Rightarrow> i | None \<Rightarrow> 0xFF)"

text \<open>
  The end of \<^verbatim>\<open>decodeQuantum\<close>: the 6-bit values read so far (two, three or four of
  them, the missing ones zero) are joined into 24 bits, and one byte fewer than values read
  is written out. The encoding is not strict: the unused low bits are not checked.
\<close>

fun quantum :: "byte list \<Rightarrow> byte list" where
  "quantum [d0, d1, d2, d3] =
     (let val = push_bit 18 (ucast d0) OR push_bit 12 (ucast d1) OR push_bit 6 (ucast d2)
                OR (ucast d3 :: 64 word) in
        [ucast (drop_bit 16 val), ucast (drop_bit 8 val), ucast val])"
| "quantum [d0, d1, d2] =
     (let val = push_bit 18 (ucast d0) OR push_bit 12 (ucast d1)
                OR (push_bit 6 (ucast d2) :: 64 word) in
        [ucast (drop_bit 16 val), ucast (drop_bit 8 val)])"
| "quantum [d0, d1] =
     (let val = push_bit 18 (ucast d0) OR (push_bit 12 (ucast d1) :: 64 word) in
        [ucast (drop_bit 16 val)])"
| "quantum dbuf = []"

text \<open>
  \<^verbatim>\<open>Encoding.Decode\<close> for an encoding without padding, as the repetition of
  \<^verbatim>\<open>decodeQuantum\<close>: \<open>dbuf\<close> holds the values of the current quantum, \<open>si\<close> is the index
  of the next character. A character of the alphabet is collected; a line feed or carriage
  return is skipped; any other character (also \<open>=\<close>) is corrupt input at its index. A
  single pending value at the end of the input is corrupt input, reported at \<open>si - 1\<close>.
\<close>

fun Decode :: "byte list \<Rightarrow> string \<Rightarrow> nat \<Rightarrow> error + byte list" where
  "Decode dbuf [] si =
     (if length dbuf = 0 then Inr []
      else if length dbuf = 1 then Inl (CorruptInputError (si - 1))
      else Inr (quantum dbuf))"
| "Decode dbuf (c # src) si =
     (if decodeMap c \<noteq> 0xFF then
        (if length dbuf = 3 then
           (case Decode [] src (Suc si) of
              Inl err \<Rightarrow> Inl err
            | Inr dst \<Rightarrow> Inr (quantum (dbuf @ [decodeMap c]) @ dst))
         else Decode (dbuf @ [decodeMap c]) src (Suc si))
      else if c = CHR 0x0A \<or> c = CHR 0x0D then Decode dbuf src (Suc si)
      else Inl (CorruptInputError si))"

definition DecodeString :: "string \<Rightarrow> error + byte list" where
  "DecodeString s = Decode [] s 0"

subsection \<open>strings.TrimRight\<close>

definition TrimRight :: "string \<Rightarrow> string \<Rightarrow> string" where
  "TrimRight s cutset = rev (dropWhile (\<lambda>c. c \<in> set cutset) (rev s))"

subsection \<open>math/big\<close>

text \<open>
  \<^verbatim>\<open>Int.Bytes\<close> is the absolute value as a big-endian byte string without leading zero
  bytes (empty for zero); \<^verbatim>\<open>Int.SetBytes\<close> reads a big-endian unsigned integer;
  \<^verbatim>\<open>Int.Uint64\<close> keeps the low 64 bits.
\<close>

fun nat_bytes :: "nat \<Rightarrow> byte list" where
  "nat_bytes n = (if n = 0 then [] else nat_bytes (n div 256) @ [word_of_nat (n mod 256)])"

declare nat_bytes.simps [simp del]

definition big_Bytes :: "int \<Rightarrow> byte list" where
  "big_Bytes x = nat_bytes (nat \<bar>x\<bar>)"

definition big_SetBytes :: "byte list \<Rightarrow> int" where
  "big_SetBytes buf = int (foldl (\<lambda>z b. z * 256 + unat b) 0 buf)"

definition big_Uint64 :: "int \<Rightarrow> 64 word" where
  "big_Uint64 x = word_of_int \<bar>x\<bar>"

subsection \<open>The helpers of the package\<close>

definition base64urlTrailingPadding :: "string \<Rightarrow> error + byte list" where
  "base64urlTrailingPadding s = DecodeString (TrimRight s ''='')"

definition bigIntToBase64RawURL :: "int \<Rightarrow> string" where
  "bigIntToBase64RawURL i = EncodeToString (big_Bytes i)"

subsection \<open>Key objects\<close>

text \<open>
  The curves of \<^verbatim>\<open>crypto/elliptic\<close> and their registered names
  (\<^verbatim>\<open>Curve.Params().Name\<close>).
\<close>

datatype Curve = P224 | P256 | P384 | P521

fun Name :: "Curve \<Rightarrow> string" where
  "Name P224 = ''P-224''"
| "Name P256 = ''P-256''"
| "Name P384 = ''P-384''"
| "Name P521 = ''P-521''"

record ecdsa_PublicKey =
  Curve :: Curve
  pub_X :: int
  pub_Y :: int

record ecdsa_PrivateKey =
  ecdsa_Public :: ecdsa_PublicKey
  ecdsa_D :: int

record rsa_PublicKey =
  pub_N :: int
  pub_E :: "64 word"

record rsa_CRTValue =
  Exp :: int
  Coeff :: int
  crt_R :: int

record rsa_PrecomputedValues =
  Dp :: int
  Dq :: int
  Qinv :: int
  CRTValues :: "rsa_CRTValue list"

record rsa_PrivateKey =
  rsa_Public :: rsa_PublicKey
  rsa_D :: int
  Primes :: "int list"
  Precomputed :: rsa_PrecomputedValues

text \<open>
  The dynamic type of \<^verbatim>\<open>KeyWithMeta.Key\<close> (an \<^verbatim>\<open>interface{}\<close>): the seven types of the
  type switch of \<^verbatim>\<open>KeyMarshal\<close>, the nil interface, and any other type (with its name).
\<close>

datatype Key =
    NilKey
  | ECDSAPrivateKey ecdsa_PrivateKey
  | ECDSAPublicKey ecdsa_PublicKey
  | Ed25519PrivateKey "byte list"
  | Ed25519PublicKey "byte list"
  | RSAPrivateKey rsa_PrivateKey
  | RSAPublicKey rsa_PublicKey
  | ByteSlice "byte list"
  | OtherKey string

record KeyWithMeta =
  Key :: Key
  KeyID :: string

subsection \<open>The wire record\<close>

record OtherPrimes =
  oth_D :: string
  oth_R :: string
  oth_T :: string

record JWKMarshal =
  ALG :: string
  CRV :: string
  D :: string
  DP :: string
  DQ :: string
  E :: string
  K :: string
  KID :: string
  KTY :: string
  N :: string
  OTH :: "OtherPrimes list"
  P :: string
  Q :: string
  QI :: string
  X :: string
  Y :: string

text \<open>The zero value of the record (\<^verbatim>\<open>var jwk JWKMarshal\<close>): every field empty.\<close>

definition JWKMarshal_zero :: JWKMarshal where
  "JWKMarshal_zero =
     \<lparr>ALG = [], CRV = [], D = [], DP = [], DQ = [], E = [], K = [], KID = [], KTY = [],
      N = [], OTH = [], P = [], Q = [], QI = [], X = [], Y = []\<rparr>"

definition ALGEdDSA :: string where "ALGEdDSA = ''EdDSA''"
definition KeyTypeEC :: string where "KeyTypeEC = ''EC''"
definition KeyTypeOKP :: string where "KeyTypeOKP = ''OKP''"
definition KeyTypeRSA :: string where "KeyTypeRSA = ''RSA''"
definition KeyTypeOct :: string where "KeyTypeOct = ''oct''"
definition CurveEd25519 :: string where "CurveEd25519 = ''Ed25519''"
definition CurveP256 :: string where "CurveP256 = ''P-256''"
definition CurveP384 :: string where "CurveP384 = ''P-384''"
definition CurveP521 :: string where "CurveP521 = ''P-521''"

text \<open>
  \<^verbatim>\<open>KeyMarshalOptions\<close> and \<^verbatim>\<open>KeyUnmarshalOptions\<close> are two struct types with the same
  two fields; they share one record here.
\<close>

record KeyMarshalOptions =
  AsymmetricPrivate :: bool
  Symmetric :: bool

type_synonym KeyUnmarshalOptions = KeyMarshalOptions

subsection \<open>crypto/ed25519\<close>

text \<open>
  \<^verbatim>\<open>PrivateKey.Public\<close> copies \<^verbatim>\<open>priv[32:]\<close> into a fresh 32-byte buffer: the slice
  expression panics when the key is shorter than 32 bytes, and the copy leaves zero bytes
  where the key is shorter than 64.
\<close>

definition ed25519_Public :: "byte list \<Rightarrow> error + byte list" where
  "ed25519_Public priv =
     (if length priv < 32 then Inl RuntimePanic
      else Inr (take 32 (drop 32 priv @ replicate 32 0)))"

subsection \<open>KeyMarshal\<close>

definition KeyMarshal :: "KeyWithMeta \<Rightarrow> KeyMarshalOptions \<Rightarrow> error + JWKMarshal" where
  "KeyMarshal meta options =
     (let jwk = JWKMarshal_zero;
          switch =
            (case Key meta of
               ECDSAPrivateKey key \<Rightarrow>
                 (let pub = ecdsa_Public key;
                      jwk = jwk\<lparr>CRV := Name (Curve pub)\<rparr>;
                      jwk = jwk\<lparr>X := bigIntToBase64RawURL (pub_X pub)\<rparr>;
                      jwk = jwk\<lparr>Y := bigIntToBase64RawURL (pub_Y pub)\<rparr>;
                      jwk = jwk\<lparr>KTY := KeyTypeEC\<rparr>
                  in if AsymmetricPrivate options
                     then Inr (jwk\<lparr>D := bigIntToBase64RawURL (ecdsa_D key)\<rparr>)
                     else Inr jwk)
             | ECDSAPublicKey key \<Rightarrow>
                 (let jwk = jwk\<lparr>CRV := Name (Curve key)\<rparr>;
                      jwk = jwk\<lparr>X := bigIntToBase64RawURL (pub_X key)\<rparr>;
                      jwk = jwk\<lparr>Y := bigIntToBase64RawURL (pub_Y key)\<rparr>;
                      jwk = jwk\<lparr>KTY := KeyTypeEC\<rparr>
                  in Inr jwk)
             | Ed25519PrivateKey key \<Rightarrow>
                 (case ed25519_Public key of
                    Inl err \<Rightarrow> Inl err
                  | Inr pub \<Rightarrow>
                     (let jwk = jwk\<lparr>ALG := ALGEdDSA\<rparr>;
                          jwk = jwk\<lparr>CRV := CurveEd25519\<rparr>;
                          jwk = jwk\<lparr>X := EncodeToString pub\<rparr>;
                          jwk = jwk\<lparr>KTY := KeyTypeOKP\<rparr>
                      in if AsymmetricPrivate options
                         then Inr (jwk\<lparr>D := EncodeToString (take 32 key)\<rparr>)
                         else Inr jwk))
             | Ed25519PublicKey key \<Rightarrow>
                 (let jwk = jwk\<lparr>ALG := ALGEdDSA\<rparr>;
                      jwk = jwk\<lparr>CRV := CurveEd25519\<rparr>;
                      jwk = jwk\<lparr>X := EncodeToString key\<rparr>;
                      jwk = jwk\<lparr>KTY := KeyTypeOKP\<rparr>
                  in Inr jwk)
             | RSAPrivateKey key \<Rightarrow>
                 (let pub = rsa_Public key;
                      jwk = jwk\<lparr>E := bigIntToBase64RawURL (sint (pub_E pub))\<rparr>;
                      jwk = jwk\<lparr>N := bigIntToBase64RawURL (pub_N pub)\<rparr>;
                      jwk = jwk\<lparr>KTY := KeyTypeRSA\<rparr>
                  in if AsymmetricPrivate options then
                       (if length (Primes key) < 2 then Inl RuntimePanic
                        else
                          (let jwk = jwk\<lparr>D := bigIntToBase64RawURL (rsa_D key)\<rparr>;
                               jwk = jwk\<lparr>P := bigIntToBase64RawURL (Primes key ! 0)\<rparr>;
                               jwk = jwk\<lparr>Q := bigIntToBase64RawURL (Primes key ! 1)\<rparr>;
                               jwk = jwk\<lparr>DP := bigIntToBase64RawURL (Dp (Precomputed key))\<rparr>;
                               jwk = jwk\<lparr>DQ := bigIntToBase64RawURL (Dq (Precomputed key))\<rparr>;
                               jwk = jwk\<lparr>QI := bigIntToBase64RawURL (Qinv (Precomputed key))\<rparr>
                           in Inr (jwk\<lparr>OTH :=
                                 map (\<lambda>v. \<lparr>oth_D = bigIntToBase64RawURL (Exp v),
                                           oth_R = bigIntToBase64RawURL (crt_R v),
                                           oth_T = bigIntToBase64RawURL (Coeff v)\<rparr>)
                                     (CRTValues (Precomputed key))\<rparr>)))
                     else Inr jwk)
             | RSAPublicKey key \<Rightarrow>
                 (let jwk = jwk\<lparr>E := bigIntToBase64RawURL (sint (pub_E key))\<rparr>;
                      jwk = jwk\<lparr>N := bigIntToBase64RawURL (pub_N key)\<rparr>;
                      jwk = jwk\<lparr>KTY := KeyTypeRSA\<rparr>
                  in Inr jwk)
             | ByteSlice key \<Rightarrow>
                 (if Symmetric options then
                    (let jwk = jwk\<lparr>KTY := KeyTypeOct\<rparr>;
                         jwk = jwk\<lparr>K := EncodeToString key\<rparr>
                     in Inr jwk)
                  else Inl ErrUnsupportedKeyType)
             | _ \<Rightarrow> Inl ErrUnsupportedKeyType)
      in case switch of
           Inl err \<Rightarrow> Inl err
         | Inr jwk \<Rightarrow> Inr (jwk\<lparr>KID := KeyID meta\<rparr>))"

subsection \<open>crypto/rsa: PrivateKey.Validate\<close>

text \<open>
  \<^verbatim>\<open>Validate\<close> as the library had it when the package was written. \<^verbatim>\<open>checkPub\<close>
  bounds the public exponent. \<^verbatim>\<open>Validate\<close> then checks that every prime is greater than
  one and that the primes multiply to the modulus, and that \<open>d * e\<close> is congruent to one
  modulo \<open>p - 1\<close> for every prime \<open>p\<close>; the first check that fails gives the error. The
  precomputed CRT values are not looked at.
\<close>

definition checkPub :: "rsa_PublicKey \<Rightarrow> rsa_error option" where
  "checkPub pub =
     (if sint (pub_E pub) < 2 then Some errPublicExponentSmall
      else if sint (pub_E pub) > 2 ^ 31 - 1 then Some errPublicExponentLarge
      else None)"

fun primes_modulus :: "int \<Rightarrow> int list \<Rightarrow> rsa_error + int" where
  "primes_modulus modulus [] = Inr modulus"
| "primes_modulus modulus (prime # primes) =
     (if prime \<le> 1 then Inl errInvalidPrime
      else primes_modulus (modulus * prime) primes)"

fun primes_congruence :: "int \<Rightarrow> int list \<Rightarrow> rsa_error option" where
  "primes_congruence de [] = None"
| "primes_congruence de (prime # primes) =
     (if de mod (prime - 1) \<noteq> 1 then Some errInvalidExponents
      else primes_congruence de primes)"

definition Validate :: "rsa_PrivateKey \<Rightarrow> rsa_error option" where
  "Validate priv =
     (case checkPub (rsa_Public priv) of
        Some err \<Rightarrow> Some err
      | None \<Rightarrow>
         (case primes_modulus 1 (Primes priv) of
            Inl err \<Rightarrow> Some err
          | Inr modulus \<Rightarrow>
             (if modulus \<noteq> pub_N (rsa_Public priv) then Some errInvalidModulus
              else primes_congruence (sint (pub_E (rsa_Public priv)) * rsa_D priv)
                     (Primes priv))))"

subsection \<open>KeyUnmarshal\<close>

text \<open>
  The loop over \<^verbatim>\<open>jwk.OTH\<close>: each entry needs \<open>r\<close>, \<open>d\<close> and \<open>t\<close>, which are decoded in
  the order \<open>d\<close>, \<open>t\<close>, \<open>r\<close>; the first failure returns. The loop writes
  \<^verbatim>\<open>primes[i+2]\<close> from \<open>r\<close>, so the extra primes are the \<open>R\<close> fields of the result.
\<close>

fun unmarshal_oth :: "OtherPrimes list \<Rightarrow> error + rsa_CRTValue list" where
  "unmarshal_oth [] = Inr []"
| "unmarshal_oth (otherPrimes # rest) =
     (if oth_R otherPrimes = [] \<or> oth_D otherPrimes = [] \<or> oth_T otherPrimes = []
      then Inl ErrKeyUnmarshalParameter
      else case base64urlTrailingPadding (oth_D otherPrimes) of
        Inl err \<Rightarrow> Inl err
      | Inr othD \<Rightarrow>
      (case base64urlTrailingPadding (oth_T otherPrimes) of
        Inl err \<Rightarrow> Inl err
      | Inr othT \<Rightarrow>
      (case base64urlTrailingPadding (oth_R otherPrimes) of
        Inl err \<Rightarrow> Inl err
      | Inr othR \<Rightarrow>
      (case unmarshal_oth rest of
        Inl err \<Rightarrow> Inl err
      | Inr oth \<Rightarrow>
          Inr (\<lparr>Exp = big_SetBytes othD, Coeff = big_SetBytes othT,
                crt_R = big_SetBytes othR\<rparr> # oth)))))"

definition unmarshal_curve :: "string \<Rightarrow> Curve option" where
  "unmarshal_curve crv =
     (if crv = CurveP256 then Some P256
      else if crv = CurveP384 then Some P384
      else if crv = CurveP521 then Some P521
      else None)"

definition unmarshal_EC :: "JWKMarshal \<Rightarrow> KeyUnmarshalOptions \<Rightarrow> error + Key" where
  "unmarshal_EC jwk options =
     (if CRV jwk = [] \<or> X jwk = [] \<or> Y jwk = [] then Inl ErrKeyUnmarshalParameter
      else case base64urlTrailingPadding (X jwk) of
        Inl err \<Rightarrow> Inl err
      | Inr x \<Rightarrow>
      (case base64urlTrailingPadding (Y jwk) of
        Inl err \<Rightarrow> Inl err
      | Inr y \<Rightarrow>
      (case unmarshal_curve (CRV jwk) of
        None \<Rightarrow> Inl ErrKeyUnmarshalParameter
      | Some curve \<Rightarrow>
          (let publicKey = \<lparr>Curve = curve, pub_X = big_SetBytes x, pub_Y = big_SetBytes y\<rparr>
           in if AsymmetricPrivate options \<and> D jwk \<noteq> [] then
                (case base64urlTrailingPadding (D jwk) of
                   Inl err \<Rightarrow> Inl err
                 | Inr d \<Rightarrow>
                     Inr (ECDSAPrivateKey
                            \<lparr>ecdsa_Public = publicKey, ecdsa_D = big_SetBytes d\<rparr>))
              else Inr (ECDSAPublicKey publicKey)))))"

definition unmarshal_OKP :: "JWKMarshal \<Rightarrow> KeyUnmarshalOptions \<Rightarrow> error + Key" where
  "unmarshal_OKP jwk options =
     (if CRV jwk \<noteq> CurveEd25519 then Inl ErrKeyUnmarshalParameter
      else if X jwk = [] then Inl ErrKeyUnmarshalParameter
      else case base64urlTrailingPadding (X jwk) of
        Inl err \<Rightarrow> Inl err
      | Inr public \<Rightarrow>
          (if length public \<noteq> 32 then Inl ErrKeyUnmarshalParameter
           else if AsymmetricPrivate options \<and> D jwk \<noteq> [] then
             (case base64urlTrailingPadding (D jwk) of
                Inl err \<Rightarrow> Inl err
              | Inr private \<Rightarrow>
                  (let private = private @ public
                   in if length private \<noteq> 64 then Inl ErrKeyUnmarshalParameter
                      else Inr (Ed25519PrivateKey private)))
           else Inr (Ed25519PublicKey public)))"

definition unmarshal_RSA :: "JWKMarshal \<Rightarrow> KeyUnmarshalOptions \<Rightarrow> error + Key" where
  "unmarshal_RSA jwk options =
     (if N jwk = [] \<or> E jwk = [] then Inl ErrKeyUnmarshalParameter
      else case base64urlTrailingPadding (N jwk) of
        Inl err \<Rightarrow> Inl err
      | Inr n \<Rightarrow>
      (case base64urlTrailingPadding (E jwk) of
        Inl err \<Rightarrow> Inl err
      | Inr e \<Rightarrow>
      (let publicKey = \<lparr>pub_N = big_SetBytes n, pub_E = big_Uint64 (big_SetBytes e)\<rparr>
       in if AsymmetricPrivate options \<and> D jwk \<noteq> [] \<and> P jwk \<noteq> [] \<and> Q jwk \<noteq> []
             \<and> DP jwk \<noteq> [] \<and> DQ jwk \<noteq> [] \<and> QI jwk \<noteq> [] then
            (case base64urlTrailingPadding (D jwk) of
              Inl err \<Rightarrow> Inl err
            | Inr d \<Rightarrow>
            (case base64urlTrailingPadding (P jwk) of
              Inl err \<Rightarrow> Inl err
            | Inr p \<Rightarrow>
            (case base64urlTrailingPadding (Q jwk) of
              Inl err \<Rightarrow> Inl err
            | Inr q \<Rightarrow>
            (case base64urlTrailingPadding (DP jwk) of
              Inl err \<Rightarrow> Inl err
            | Inr dp \<Rightarrow>
            (case base64urlTrailingPadding (DQ jwk) of
              Inl err \<Rightarrow> Inl err
            | Inr dq \<Rightarrow>
            (case base64urlTrailingPadding (QI jwk) of
              Inl err \<Rightarrow> Inl err
            | Inr qi \<Rightarrow>
            (case unmarshal_oth (OTH jwk) of
              Inl err \<Rightarrow> Inl err
            | Inr oth \<Rightarrow>
               (let primes = [big_SetBytes p, big_SetBytes q] @ map crt_R oth;
                    privateKey =
                      \<lparr>rsa_Public = publicKey, rsa_D = big_SetBytes d, Primes = primes,
                       Precomputed = \<lparr>Dp = big_SetBytes dp, Dq = big_SetBytes dq,
                                      Qinv = big_SetBytes qi, CRTValues = oth\<rparr>\<rparr>
                in case Validate privateKey of
                     Some err \<Rightarrow> Inl (RSAValidateError err)
                   | None \<Rightarrow> Inr (RSAPrivateKey privateKey)))))))))
          else if \<not> AsymmetricPrivate options then Inr (RSAPublicKey publicKey)
          else Inr NilKey)))"

definition unmarshal_oct :: "JWKMarshal \<Rightarrow> KeyUnmarshalOptions \<Rightarrow> error + Key" where
  "unmarshal_oct jwk options =
     (if Symmetric options then
        (if K jwk = [] then Inl ErrKeyUnmarshalParameter
         else case base64urlTrailingPadding (K jwk) of
           Inl err \<Rightarrow> Inl err
         | Inr key \<Rightarrow> Inr (ByteSlice key))
      else Inl ErrUnsupportedKeyType)"

text \<open>
  \<^verbatim>\<open>KeyUnmarshal\<close>: the switch on \<^verbatim>\<open>jwk.KTY\<close>, one definition above for each case,
  then the copy of \<^verbatim>\<open>jwk.KID\<close>.
\<close>

definition KeyUnmarshal :: "JWKMarshal \<Rightarrow> KeyUnmarshalOptions \<Rightarrow> error + KeyWithMeta" where
  "KeyUnmarshal jwk options =
     (let switch =
            (if KTY jwk = KeyTypeEC then unmarshal_EC jwk options
             else if KTY jwk = KeyTypeOKP then unmarshal_OKP jwk options
             else if KTY jwk = KeyTypeRSA then unmarshal_RSA jwk options
             else if KTY jwk = KeyTypeOct then unmarshal_oct jwk options
             else Inl ErrUnsupportedKeyType)
      in case switch of
           Inl err \<Rightarrow> Inl err
         | Inr key \<Rightarrow> Inr \<lparr>Key = key, KeyID = KID jwk\<rparr>)"

subsection \<open>JWKSet.JSON\<close>

record JWKSMarshal =
  Keys :: "JWKMarshal list"

text \<open>
  The loop over the snapshot: \<open>keys\<close> is \<^verbatim>\<open>jwks.Keys\<close> so far. The options are
  \<^verbatim>\<open>KeyMarshalOptions{AsymmetricPrivate: false}\<close>, so \<^verbatim>\<open>Symmetric\<close> is false too.
\<close>

fun JSON_loop :: "KeyWithMeta list \<Rightarrow> JWKMarshal list \<Rightarrow> error + JWKMarshal list" where
  "JSON_loop [] keys = Inr keys"
| "JSON_loop (meta # rest) keys =
     (case KeyMarshal meta \<lparr>AsymmetricPrivate = False, Symmetric = False\<rparr> of
        Inl err \<Rightarrow>
          (if errors_Is err ErrUnsupportedKeyType then JSON_loop rest keys
           else Inl err)
      | Inr jwk \<Rightarrow> JSON_loop rest (keys @ [jwk]))"

text \<open>
  \<^verbatim>\<open>JWKSet.JSON\<close>, given the result of \<^verbatim>\<open>Store.SnapshotKeys\<close>. The result is the
  \<^verbatim>\<open>JWKSMarshal\<close> value that the method hands to \<^verbatim>\<open>json.Marshal\<close>; the serialisation
  itself is not part of the model.
\<close>

definition JWKSet_JSON :: "error + KeyWithMeta list \<Rightarrow> error + JWKSMarshal" where
  "JWKSet_JSON snapshot =
     (case snapshot of
        Inl err \<Rightarrow> Inl err
      | Inr keys \<Rightarrow>
         (case JSON_loop keys [] of
            Inl err \<Rightarrow> Inl err
          | Inr jwks \<Rightarrow> Inr \<lparr>Keys = jwks\<rparr>))"

subsection \<open>crypto/elliptic: the curve equation\<close>

text \<open>
  The prime and the constant \<open>b\<close> of each curve, and \<^verbatim>\<open>CurveParams.IsOnCurve\<close>: the
  coordinates are in range and satisfy \<open>y\<^sup>2 = x\<^sup>3 - 3x + b\<close> modulo the prime. The package
  never calls it; it is here to say of a point that it is on a curve, or that it is not.
\<close>

fun curve_P :: "Curve \<Rightarrow> int" where
  "curve_P P224 = 2 ^ 224 - 2 ^ 96 + 1"
| "curve_P P256 = 2 ^ 256 - 2 ^ 224 + 2 ^ 192 + 2 ^ 96 - 1"
| "curve_P P384 = 2 ^ 384 - 2 ^ 128 - 2 ^ 96 + 2 ^ 32 - 1"
| "curve_P P521 = 2 ^ 521 - 1"

fun curve_B :: "Curve \<Rightarrow> int" where
  "curve_B P224 = 0xb4050a850c04b3abf54132565044b0b7d7bfd8ba270b39432355ffb4"
| "curve_B P256 = 0x5ac635d8aa3a93e7b3ebbd55769886bc651d06b0cc53b0f63bce3c3e27d2604b"
| "curve_B P384 = 0xb3312fa7e23ee7e4988e056be3f82d19181d9c6efe8141120314088f5013875ac656398d8a2ed19d2a85c8edd3ec2aef"
| "curve_B P521 = 0x0051953eb9618e1c9a1f929a21a0b68540eea2da725b99b315f3b8b489918ef109e156193951ec7e937b1652c0bd3bb1bf073573df883d2c34f1ef451fd46b503f00"

definition IsOnCurve :: "Curve \<Rightarrow> int \<Rightarrow> int \<Rightarrow> bool" where
  "IsOnCurve curve x y =
     (if x < 0 \<or> curve_P curve \<le> x \<or> y < 0 \<or> curve_P curve \<le> y then False
      else (x * x * x - 3 * x + curve_B curve) mod curve_P curve
             = (y * y) mod curve_P curve)"

subsection \<open>Round trips\<close>

text \<open>
  What a record made by \<^verbatim>\<open>KeyMarshal\<close> carries: the key itself when private material
  is emitted, its public part when it is withheld.
\<close>

fun public_part :: "Key \<Rightarrow> Key" where
  "public_part (ECDSAPrivateKey key) = ECDSAPublicKey (ecdsa_Public key)"
| "public_part (Ed25519PrivateKey key) = Ed25519PublicKey (drop 32 key)"
| "public_part (RSAPrivateKey key) = RSAPublicKey (rsa_Public key)"
| "public_part key = key"

definition emitted :: "Key \<Rightarrow> KeyMarshalOptions \<Rightarrow> Key" where
  "emitted key options = (if AsymmetricPrivate options then key else public_part key)"

text \<open>
  The keys that \<^verbatim>\<open>KeyUnmarshal\<close> reads back from their record: an EC key on one of the
  three curves it resolves, with positive coordinates (and scalar); an Ed25519 key of the
  size of its type; an RSA key with positive numbers throughout, exactly two primes, no
  further CRT values, and accepted by \<^verbatim>\<open>Validate\<close>; a non-empty secret.
\<close>

definition reproducible_ecdsa :: "ecdsa_PublicKey \<Rightarrow> bool" where
  "reproducible_ecdsa pub \<longleftrightarrow> Curve pub \<in> {P256, P384, P521} \<and> 0 < pub_X pub \<and> 0 < pub_Y pub"

definition reproducible_rsa :: "rsa_PublicKey \<Rightarrow> bool" where
  "reproducible_rsa pub \<longleftrightarrow> 0 < pub_N pub \<and> 0 < sint (pub_E pub)"

fun reproducible :: "Key \<Rightarrow> bool" where
  "reproducible (ECDSAPrivateKey key) \<longleftrightarrow> reproducible_ecdsa (ecdsa_Public key) \<and> 0 < ecdsa_D key"
| "reproducible (ECDSAPublicKey key) \<longleftrightarrow> reproducible_ecdsa key"
| "reproducible (Ed25519PrivateKey key) \<longleftrightarrow> length key = 64"
| "reproducible (Ed25519PublicKey key) \<longleftrightarrow> length key = 32"
| "reproducible (RSAPrivateKey key) \<longleftrightarrow>
     reproducible_rsa (rsa_Public key) \<and> 0 < rsa_D key
     \<and> length (Primes key) = 2 \<and> (\<forall>prime \<in> set (Primes key). 0 < prime)
     \<and> 0 < Dp (Precomputed key) \<and> 0 < Dq (Precomputed key) \<and> 0 < Qinv (Precomputed key)
     \<and> CRTValues (Precomputed key) = [] \<and> Validate key = None"
| "reproducible (RSAPublicKey key) \<longleftrightarrow> reproducible_rsa key"
| "reproducible (ByteSlice key) \<longleftrightarrow> key \<noteq> []"
| "reproducible key \<longleftrightarrow> False"

text \<open>
  The options of \<^verbatim>\<open>KeyUnmarshal\<close> ask for at least what \<^verbatim>\<open>KeyMarshal\<close> emitted. For
  an RSA key they ask for private material only when it was emitted; a symmetric key needs
  \<^verbatim>\<open>Symmetric\<close> on both sides.
\<close>

fun requests_enough :: "Key \<Rightarrow> KeyMarshalOptions \<Rightarrow> KeyUnmarshalOptions \<Rightarrow> bool" where
  "requests_enough (ByteSlice key) options options' \<longleftrightarrow>
     Symmetric options \<and> Symmetric options'"
| "requests_enough (RSAPrivateKey key) options options' \<longleftrightarrow>
     AsymmetricPrivate options' = AsymmetricPrivate options"
| "requests_enough (RSAPublicKey key) options options' \<longleftrightarrow>
     AsymmetricPrivate options' = False"
| "requests_enough key options options' \<longleftrightarrow>
     (AsymmetricPrivate options \<longrightarrow> AsymmetricPrivate options')"

text \<open>
  A round trip: \<^verbatim>\<open>KeyMarshal\<close> returns a record, and \<^verbatim>\<open>KeyUnmarshal\<close> on that record
  returns the key \<open>key'\<close> under the same key identifier.
\<close>

definition round_trip ::
  "Key \<Rightarrow> string \<Rightarrow> KeyMarshalOptions \<Rightarrow> KeyUnmarshalOptions \<Rightarrow> Key \<Rightarrow> bool" where
  "round_trip key kid options options' key' \<longleftrightarrow>
     (\<exists>jwk. KeyMarshal \<lparr>Key = key, KeyID = kid\<rparr> options = Inr jwk
          \<and> KeyUnmarshal jwk options' = Inr \<lparr>Key = key', KeyID = kid\<rparr>)"

section \<open>The library functions\<close>

text \<open>
  The decoder reads back what the encoder writes, also with padding appended, and
  \<^verbatim>\<open>SetBytes\<close> reads back the absolute value that \<^verbatim>\<open>Bytes\<close> writes.
\<close>

lemma alphabet_table:
  "\<forall>n \<in> set [0..<64]. decodeMap (encodeURL ! n) = word_of_nat n
      \<and> decodeMap (encodeURL ! n) \<noteq> 0xFF \<and> encodeURL ! n \<noteq> CHR ''=''"
  by code_simp

lemma decodeMap_encode:
  assumes "i \<le> (63 :: 64 word)"
  shows "decodeMap (encode i) = ucast i" and "decodeMap (encode i) \<noteq> 0xFF"
    and "encode i \<noteq> CHR ''=''"
proof -
  from assms have "unat i < 64" by (simp add: word_le_nat_alt)
  then have m: "unat i \<in> set [0..<64]" by simp
  from alphabet_table m have a: "decodeMap (encodeURL ! unat i) = word_of_nat (unat i)"
    and b: "encodeURL ! unat i \<noteq> CHR ''=''"
    and c: "decodeMap (encodeURL ! unat i) \<noteq> 0xFF" by blast+
  show "decodeMap (encode i) = ucast i" using a by (simp add: encode_def)
  show "encode i \<noteq> CHR ''=''" using b by (simp add: encode_def)
  show "decodeMap (encode i) \<noteq> 0xFF" using c by (simp add: encode_def)
qed

lemma and63: "(w :: 64 word) AND 0x3F \<le> 63"
  by (rule word_and_le1)

lemma Decode_alphabet:
  assumes "i \<le> 63"
  shows "Decode dbuf (encode i # src) si =
           (if length dbuf = 3 then
              (case Decode [] src (Suc si) of
                 Inl err \<Rightarrow> Inl err
               | Inr dst \<Rightarrow> Inr (quantum (dbuf @ [ucast i]) @ dst))
            else Decode (dbuf @ [ucast i]) src (Suc si))"
proof -
  have a: "decodeMap (encode i) = ucast i" and b: "decodeMap (encode i) \<noteq> 0xFF"
    using decodeMap_encode [OF assms] by blast+
  show ?thesis
    unfolding Decode.simps(2) a using b [unfolded a] by simp
qed

lemma Decode4:
  assumes "i0 \<le> 63" "i1 \<le> 63" "i2 \<le> 63" "i3 \<le> 63"
  shows "Decode [] (encode i0 # encode i1 # encode i2 # encode i3 # rest) si =
          (case Decode [] rest (Suc (Suc (Suc (Suc si)))) of
             Inl err \<Rightarrow> Inl err
           | Inr dst \<Rightarrow> Inr (quantum [ucast i0, ucast i1, ucast i2, ucast i3] @ dst))"
  by (simp add: Decode_alphabet assms del: Decode.simps(2) cong: sum.case_cong)

lemma Decode3:
  assumes "i0 \<le> 63" "i1 \<le> 63" "i2 \<le> 63"
  shows "Decode [] [encode i0, encode i1, encode i2] si =
           Inr (quantum [ucast i0, ucast i1, ucast i2])"
  by (simp add: Decode_alphabet assms del: Decode.simps(2) cong: sum.case_cong)

lemma Decode2:
  assumes "i0 \<le> 63" "i1 \<le> 63"
  shows "Decode [] [encode i0, encode i1] si = Inr (quantum [ucast i0, ucast i1])"
  by (simp add: Decode_alphabet assms del: Decode.simps(2) cong: sum.case_cong)

lemma mask6: "(0x3F :: 64 word) = mask 6"
  by (simp add: mask_eq_exp_minus_1)

lemma Suc_Suc_diff_2:
  "2 \<le> n \<Longrightarrow> Suc (Suc (n - 2)) = n"
  "\<not> n < 2 \<Longrightarrow> Suc (Suc (n - 2)) = n"
  "\<not> n < 4 \<Longrightarrow> Suc (Suc (n - 2)) = n"
  by simp_all

lemma quantum_3:
  fixes a b c :: byte
  defines "val \<equiv> push_bit 16 (ucast a) OR push_bit 8 (ucast b) OR (ucast c :: 64 word)"
  shows "quantum [ucast (drop_bit 18 val AND 0x3F), ucast (drop_bit 12 val AND 0x3F),
                  ucast (drop_bit 6 val AND 0x3F), ucast (val AND 0x3F)] = [a, b, c]"
  unfolding val_def mask6 quantum.simps Let_def
  apply (intro list.inject[THEN iffD2] conjI refl)
    apply (rule bit_word_eqI; simp add: bit_simps;
        auto dest: bit_imp_le_length simp: Suc_Suc_diff_2)[1]
   apply (rule bit_word_eqI; simp add: bit_simps; auto dest: bit_imp_le_length)[1]
  apply (rule bit_word_eqI; simp add: bit_simps; auto dest: bit_imp_le_length)[1]
  done

lemma quantum_2:
  fixes a b :: byte
  defines "val \<equiv> push_bit 16 (ucast a) OR (push_bit 8 (ucast b) :: 64 word)"
  shows "quantum [ucast (drop_bit 18 val AND 0x3F), ucast (drop_bit 12 val AND 0x3F),
                  ucast (drop_bit 6 val AND 0x3F)] = [a, b]"
  unfolding val_def mask6 quantum.simps Let_def
  apply (intro list.inject[THEN iffD2] conjI refl)
   apply (rule bit_word_eqI; simp add: bit_simps;
       auto dest: bit_imp_le_length simp: Suc_Suc_diff_2)[1]
  apply (rule bit_word_eqI; simp add: bit_simps; auto dest: bit_imp_le_length)[1]
  done

lemma quantum_1:
  fixes a :: byte
  defines "val \<equiv> (push_bit 16 (ucast a) :: 64 word)"
  shows "quantum [ucast (drop_bit 18 val AND 0x3F), ucast (drop_bit 12 val AND 0x3F)] = [a]"
  unfolding val_def mask6 quantum.simps Let_def
  apply (intro list.inject[THEN iffD2] conjI refl)
  apply (rule bit_word_eqI; simp add: bit_simps;
      auto dest: bit_imp_le_length simp: Suc_Suc_diff_2)[1]
  done

lemma Decode_EncodeToString: "Decode [] (EncodeToString bs) si = Inr bs"
proof (induction bs arbitrary: si rule: EncodeToString.induct)
  case (1 s0 s1 s2 src)
  show ?case
    unfolding EncodeToString.simps Let_def
    by (simp only: Decode4 [OF and63 and63 and63 and63] "1.IH" sum.case quantum_3
          append_Cons append_Nil)
next
  case (2 s0 s1)
  show ?case
    unfolding EncodeToString.simps Let_def
    by (simp only: Decode3 [OF and63 and63 and63] quantum_2)
next
  case (3 s0)
  show ?case
    unfolding EncodeToString.simps Let_def
    by (simp only: Decode2 [OF and63 and63] quantum_1)
next
  case 4
  show ?case by simp
qed

lemma DecodeString_EncodeToString: "DecodeString (EncodeToString bs) = Inr bs"
  by (simp add: DecodeString_def Decode_EncodeToString)

lemma encode_no_pad [simp]:
  "encode (w AND 0x3F) \<noteq> CHR ''=''" "CHR ''='' \<noteq> encode (w AND 0x3F)"
  using decodeMap_encode(3) [OF and63, of w] by auto

lemma EncodeToString_no_pad: "CHR ''='' \<notin> set (EncodeToString bs)"
  by (induction bs rule: EncodeToString.induct) (simp_all add: Let_def)

lemma EncodeToString_eq_Nil [simp]: "EncodeToString bs = [] \<longleftrightarrow> bs = []"
  by (cases bs rule: EncodeToString.cases) (simp_all add: Let_def)

lemma TrimRight_pad:
  assumes "CHR ''='' \<notin> set s"
  shows "TrimRight (s @ replicate k CHR ''='') ''='' = s"
proof -
  have "dropWhile (\<lambda>c. c \<in> set ''='') (replicate k CHR ''='' @ rev s) = rev s"
  proof (induction k)
    case 0
    have "CHR ''='' \<notin> set (rev s)" using assms by simp
    then show ?case by (cases "rev s") auto
  next
    case (Suc k)
    then show ?case by simp
  qed
  then show ?thesis by (simp add: TrimRight_def)
qed

lemma base64urlTrailingPadding_padded:
  "base64urlTrailingPadding (EncodeToString bs @ replicate k CHR ''='') = Inr bs"
  by (simp add: base64urlTrailingPadding_def TrimRight_pad EncodeToString_no_pad
        DecodeString_EncodeToString)

lemma base64urlTrailingPadding_EncodeToString [simp]:
  "base64urlTrailingPadding (EncodeToString bs) = Inr bs"
  using base64urlTrailingPadding_padded [of bs 0] by simp

lemma decodeMap_pad: "decodeMap CHR ''='' = 0xFF"
  by code_simp

lemma Decode_no_pad:
  "Decode dbuf s si = Inr b \<Longrightarrow> CHR ''='' \<notin> set s"
proof (induction dbuf s si arbitrary: b rule: Decode.induct)
  case (1 dbuf si)
  show ?case by simp
next
  case (2 dbuf c src si)
  show ?case
  proof (cases "decodeMap c \<noteq> 0xFF")
    case True
    then have c: "c \<noteq> CHR ''=''" using decodeMap_pad by auto
    show ?thesis
    proof (cases "length dbuf = 3")
      case l: True
      with True "2.prems" obtain dst where "Decode [] src (Suc si) = Inr dst"
        by (auto split: sum.splits)
      from "2.IH"(1) [OF True l this] c show ?thesis by simp
    next
      case l: False
      with True "2.prems" have "Decode (dbuf @ [decodeMap c]) src (Suc si) = Inr b"
        by simp
      from "2.IH"(2) [OF True l this] c show ?thesis by simp
    qed
  next
    case False
    with "2.prems" have nl: "c = CHR 0x0A \<or> c = CHR 0x0D"
      by (auto split: if_splits)
    with False "2.prems" have "Decode dbuf src (Suc si) = Inr b"
      by (auto split: if_splits)
    from "2.IH"(3) [OF False nl this] nl show ?thesis by auto
  qed
qed

lemma nat_bytes_value: "foldl (\<lambda>z b. z * 256 + unat b) 0 (nat_bytes n) = n"
proof (induction n rule: nat_bytes.induct)
  case (1 n)
  show ?case
  proof (cases "n = 0")
    case True
    then show ?thesis by (simp add: nat_bytes.simps)
  next
    case False
    have u: "unat (word_of_nat (n mod 256) :: byte) = n mod 256"
      by (simp add: unat_of_nat take_bit_eq_mod)
    from False 1 show ?thesis
      by (subst nat_bytes.simps) (simp add: u)
  qed
qed

lemma big_SetBytes_Bytes [simp]: "big_SetBytes (big_Bytes x) = \<bar>x\<bar>"
  by (simp add: big_SetBytes_def big_Bytes_def nat_bytes_value)

lemma nat_bytes_eq_Nil [simp]: "nat_bytes n = [] \<longleftrightarrow> n = 0"
  by (subst nat_bytes.simps) simp

lemma big_Bytes_eq_Nil [simp]: "big_Bytes x = [] \<longleftrightarrow> x = 0"
  by (simp add: big_Bytes_def)

lemma bigIntToBase64RawURL_eq_Nil [simp]: "bigIntToBase64RawURL x = [] \<longleftrightarrow> x = 0"
  by (simp add: bigIntToBase64RawURL_def)

lemma decode_bigInt [simp]:
  "base64urlTrailingPadding (bigIntToBase64RawURL x) = Inr (big_Bytes x)"
  by (simp add: bigIntToBase64RawURL_def)

lemmas kty_defs = KeyTypeEC_def KeyTypeOKP_def KeyTypeRSA_def KeyTypeOct_def
lemmas crv_defs = CurveEd25519_def CurveP256_def CurveP384_def CurveP521_def

lemma EncodeToString_inj:
  assumes "EncodeToString a = EncodeToString b"
  shows "a = b"
proof -
  have "(Inr a :: error + byte list) = DecodeString (EncodeToString a)"
    by (simp only: DecodeString_EncodeToString)
  also have "\<dots> = DecodeString (EncodeToString b)"
    by (simp only: assms)
  also have "\<dots> = Inr b"
    by (simp only: DecodeString_EncodeToString)
  finally show ?thesis by simp
qed

section \<open>The codec\<close>

text \<open>
  One round trip for each type of key and each way of emitting it, the two outcomes of the
  loop of \<^verbatim>\<open>JWKSet.JSON\<close>, and the encodings of the numbers of some concrete keys.
\<close>

lemma unmarshal_curve_Name:
  "c \<in> {P256, P384, P521} \<Longrightarrow> unmarshal_curve (Name c) = Some c"
  by (auto simp: unmarshal_curve_def crv_defs)

lemma Name_ne_Nil [simp]: "Name c \<noteq> []"
  by (cases c) simp_all

lemma big_Uint64_sint: "0 < sint (e :: 64 word) \<Longrightarrow> big_Uint64 (sint e) = e"
  by (simp add: big_Uint64_def)

lemma emitted_public [simp]:
  "emitted (ECDSAPublicKey k) options = ECDSAPublicKey k"
  "emitted (Ed25519PublicKey b) options = Ed25519PublicKey b"
  "emitted (RSAPublicKey r) options = RSAPublicKey r"
  "emitted (ByteSlice b) options = ByteSlice b"
  "emitted NilKey options = NilKey"
  "emitted (OtherKey t) options = OtherKey t"
  by (simp_all add: emitted_def)

lemma round_tripI:
  assumes "KeyMarshal \<lparr>Key = key, KeyID = kid\<rparr> options = Inr jwk"
    and "KeyUnmarshal jwk options' = Inr \<lparr>Key = key', KeyID = kid\<rparr>"
  shows "round_trip key kid options options' key'"
  using assms by (auto simp: round_trip_def)

lemma round_trip_ecdsa_public:
  assumes "reproducible_ecdsa pub"
  shows "round_trip (ECDSAPublicKey pub) kid options options' (ECDSAPublicKey pub)"
  apply (insert assms)
  apply (rule round_tripI)
   apply (simp add: KeyMarshal_def JWKMarshal_zero_def Let_def)
  apply (simp add: KeyUnmarshal_def unmarshal_EC_def reproducible_ecdsa_def
      unmarshal_curve_Name JWKMarshal_zero_def)
  done

lemma round_trip_ecdsa_private:
  assumes "reproducible_ecdsa (ecdsa_Public key)" "0 < ecdsa_D key"
    "AsymmetricPrivate options" "AsymmetricPrivate options'"
  shows "round_trip (ECDSAPrivateKey key) kid options options' (ECDSAPrivateKey key)"
  apply (insert assms)
  apply (rule round_tripI)
   apply (simp add: KeyMarshal_def JWKMarshal_zero_def Let_def)
  apply (simp add: KeyUnmarshal_def unmarshal_EC_def reproducible_ecdsa_def
      unmarshal_curve_Name JWKMarshal_zero_def)
  done

lemma round_trip_ecdsa_withheld:
  assumes "reproducible_ecdsa (ecdsa_Public key)" "\<not> AsymmetricPrivate options"
  shows "round_trip (ECDSAPrivateKey key) kid options options'
           (ECDSAPublicKey (ecdsa_Public key))"
  apply (insert assms)
  apply (rule round_tripI)
   apply (simp add: KeyMarshal_def JWKMarshal_zero_def Let_def)
  apply (simp add: KeyUnmarshal_def unmarshal_EC_def reproducible_ecdsa_def
      unmarshal_curve_Name JWKMarshal_zero_def)
  done

lemma round_trip_okp_public:
  assumes "length pub = 32"
  shows "round_trip (Ed25519PublicKey pub) kid options options' (Ed25519PublicKey pub)"
proof -
  from assms have "pub \<noteq> []" by auto
  with assms show ?thesis
    apply -
    apply (rule round_tripI)
     apply (simp add: KeyMarshal_def JWKMarshal_zero_def Let_def)
    apply (simp add: KeyUnmarshal_def unmarshal_OKP_def JWKMarshal_zero_def kty_defs)
    done
qed

lemma round_trip_okp_private:
  assumes "length key = 64" "AsymmetricPrivate options" "AsymmetricPrivate options'"
  shows "round_trip (Ed25519PrivateKey key) kid options options' (Ed25519PrivateKey key)"
proof -
  from assms have "drop 32 key \<noteq> []" "take 32 key \<noteq> []" by auto
  with assms show ?thesis
    apply -
    apply (rule round_tripI)
     apply (simp add: KeyMarshal_def JWKMarshal_zero_def Let_def ed25519_Public_def)
    apply (simp add: KeyUnmarshal_def unmarshal_OKP_def JWKMarshal_zero_def kty_defs)
    done
qed

lemma round_trip_okp_withheld:
  assumes "length key = 64" "\<not> AsymmetricPrivate options"
  shows "round_trip (Ed25519PrivateKey key) kid options options'
           (Ed25519PublicKey (drop 32 key))"
proof -
  from assms have "drop 32 key \<noteq> []" by auto
  with assms show ?thesis
    apply -
    apply (rule round_tripI)
     apply (simp add: KeyMarshal_def JWKMarshal_zero_def Let_def ed25519_Public_def)
    apply (simp add: KeyUnmarshal_def unmarshal_OKP_def JWKMarshal_zero_def kty_defs)
    done
qed

lemma round_trip_rsa_public:
  assumes "reproducible_rsa pub" "\<not> AsymmetricPrivate options'"
  shows "round_trip (RSAPublicKey pub) kid options options' (RSAPublicKey pub)"
  apply (insert assms)
  apply (rule round_tripI)
   apply (simp add: KeyMarshal_def JWKMarshal_zero_def Let_def)
  apply (simp add: KeyUnmarshal_def unmarshal_RSA_def JWKMarshal_zero_def kty_defs
      reproducible_rsa_def big_Uint64_sint)
  done

lemma round_trip_rsa_withheld:
  assumes "reproducible_rsa (rsa_Public key)"
    "\<not> AsymmetricPrivate options" "\<not> AsymmetricPrivate options'"
  shows "round_trip (RSAPrivateKey key) kid options options' (RSAPublicKey (rsa_Public key))"
  apply (insert assms)
  apply (rule round_tripI)
   apply (simp add: KeyMarshal_def JWKMarshal_zero_def Let_def)
  apply (simp add: KeyUnmarshal_def unmarshal_RSA_def JWKMarshal_zero_def kty_defs
      reproducible_rsa_def big_Uint64_sint)
  done

lemma round_trip_rsa_private:
  assumes "reproducible (RSAPrivateKey key)"
    "AsymmetricPrivate options" "AsymmetricPrivate options'"
  shows "round_trip (RSAPrivateKey key) kid options options' (RSAPrivateKey key)"
proof -
  from assms(1) obtain p q where primes: "Primes key = [p, q]"
    by (cases "Primes key"; cases "tl (Primes key)") auto
  from assms(1) primes have pq: "0 < p" "0 < q" by auto
  have key: "\<lparr>rsa_Public = \<lparr>pub_N = pub_N (rsa_Public key), pub_E = pub_E (rsa_Public key)\<rparr>,
              rsa_D = rsa_D key, Primes = [p, q],
              Precomputed = \<lparr>Dp = Dp (Precomputed key), Dq = Dq (Precomputed key),
                Qinv = Qinv (Precomputed key), CRTValues = []\<rparr>\<rparr> = key"
    using assms(1) primes by simp
  from assms pq show ?thesis
    apply -
    apply (rule round_tripI)
     apply (simp add: KeyMarshal_def JWKMarshal_zero_def Let_def)
    apply (simp add: KeyUnmarshal_def unmarshal_RSA_def
        JWKMarshal_zero_def kty_defs reproducible_rsa_def big_Uint64_sint primes key)
    done
qed

lemma round_trip_oct:
  assumes "key \<noteq> []" "Symmetric options" "Symmetric options'"
  shows "round_trip (ByteSlice key) kid options options' (ByteSlice key)"
  apply (insert assms)
  apply (rule round_tripI)
   apply (simp add: KeyMarshal_def JWKMarshal_zero_def Let_def)
  apply (simp add: KeyUnmarshal_def unmarshal_oct_def JWKMarshal_zero_def kty_defs)
  done

lemma Validate_modulus:
  assumes "Primes priv = [p, q]" "p * q \<noteq> pub_N (rsa_Public priv)"
  shows "\<exists>err. Validate priv = Some err"
  using assms by (simp add: Validate_def split: option.split)

lemma JSON_loop_supported:
  assumes "\<forall>meta \<in> set keys. \<forall>err.
             KeyMarshal meta \<lparr>AsymmetricPrivate = False, Symmetric = False\<rparr> = Inl err
               \<longrightarrow> err = ErrUnsupportedKeyType"
  shows "JSON_loop keys jwks =
           Inr (jwks @ concat (map (\<lambda>meta.
                  case KeyMarshal meta \<lparr>AsymmetricPrivate = False, Symmetric = False\<rparr> of
                    Inl err \<Rightarrow> [] | Inr jwk \<Rightarrow> [jwk]) keys))"
  using assms
proof (induction keys arbitrary: jwks)
  case Nil
  show ?case by simp
next
  case (Cons meta keys)
  show ?case
  proof (cases "KeyMarshal meta \<lparr>AsymmetricPrivate = False, Symmetric = False\<rparr>")
    case (Inl err)
    with Cons.prems have "err = ErrUnsupportedKeyType" by simp
    with Inl Cons show ?thesis by (simp add: errors_Is_def)
  next
    case (Inr jwk)
    with Cons show ?thesis by simp
  qed
qed

lemma JSON_loop_abort:
  assumes "\<forall>meta \<in> set before. \<forall>err.
             KeyMarshal meta \<lparr>AsymmetricPrivate = False, Symmetric = False\<rparr> = Inl err
               \<longrightarrow> err = ErrUnsupportedKeyType"
    and "KeyMarshal meta \<lparr>AsymmetricPrivate = False, Symmetric = False\<rparr> = Inl err"
    and "err \<noteq> ErrUnsupportedKeyType"
  shows "JSON_loop (before @ meta # after) jwks = Inl err"
  using assms(1)
proof (induction before arbitrary: jwks)
  case Nil
  show ?case using assms(2,3) by (simp add: errors_Is_def)
next
  case (Cons m before)
  show ?case
  proof (cases "KeyMarshal m \<lparr>AsymmetricPrivate = False, Symmetric = False\<rparr>")
    case (Inl e)
    with Cons.prems have "e = ErrUnsupportedKeyType" by simp
    with Inl Cons show ?thesis by (simp add: errors_Is_def)
  next
    case (Inr jwk)
    with Cons show ?thesis by simp
  qed
qed

lemma KeyMarshal_public_only:
  assumes "KeyMarshal meta \<lparr>AsymmetricPrivate = False, Symmetric = False\<rparr> = Inr jwk"
  shows "D jwk = [] \<and> P jwk = [] \<and> Q jwk = [] \<and> DP jwk = [] \<and> DQ jwk = [] \<and> QI jwk = []
         \<and> OTH jwk = [] \<and> K jwk = []"
  using assms
  by (cases "Key meta")
     (auto simp: KeyMarshal_def JWKMarshal_zero_def Let_def split: sum.splits)

lemma JSON_loop_public_only:
  assumes "JSON_loop keys jwks = Inr result" and "jwk \<in> set result"
  shows "jwk \<in> set jwks
         \<or> (\<exists>meta \<in> set keys.
               KeyMarshal meta \<lparr>AsymmetricPrivate = False, Symmetric = False\<rparr> = Inr jwk)"
  using assms
proof (induction keys arbitrary: jwks)
  case Nil
  then show ?case by simp
next
  case (Cons meta keys)
  show ?case
  proof (cases "KeyMarshal meta \<lparr>AsymmetricPrivate = False, Symmetric = False\<rparr>")
    case (Inl err)
    with Cons.prems have "JSON_loop keys jwks = Inr result"
      by (simp split: if_splits)
    from Cons.IH [OF this Cons.prems(2)] show ?thesis by auto
  next
    case (Inr j)
    with Cons.prems have "JSON_loop keys (jwks @ [j]) = Inr result" by simp
    from Cons.IH [OF this Cons.prems(2)] Inr show ?thesis by auto
  qed
qed

subsection \<open>Evaluation at concrete keys\<close>

lemma nat_bytes_numeral:
  "nat_bytes (numeral k) = nat_bytes (numeral k div 256) @ [word_of_nat (numeral k mod 256)]"
  by (subst nat_bytes.simps) simp

lemma nat_bytes_0: "nat_bytes 0 = []"
  by simp

lemma nat_bytes_Suc_0: "nat_bytes (Suc 0) = [1]"
  by (subst nat_bytes.simps) simp

lemmas encode_eval =
  bigIntToBase64RawURL_def big_Bytes_def nat_bytes_numeral nat_bytes_0 nat_bytes_Suc_0
  encode_def encodeURL_def

lemma IsOnCurveI:
  assumes "0 \<le> x" "x < curve_P curve" "0 \<le> y" "y < curve_P curve"
    and eq: "x * x * x - 3 * x + curve_B curve = y * y + k * curve_P curve"
  shows "IsOnCurve curve x y"
proof -
  have "(x * x * x - 3 * x + curve_B curve) mod curve_P curve
          = (y * y + k * curve_P curve) mod curve_P curve"
    by (simp only: eq)
  also have "\<dots> = (y * y) mod curve_P curve"
    by (rule mod_mult_self1)
  finally show ?thesis
    using assms(1-4)
    by (simp add: IsOnCurve_def not_le [symmetric] del: curve_P.simps curve_B.simps)
qed

lemma P224_generator_on_curve:
  "IsOnCurve P224 0xb70e0cbd6bb4bf7f321390b94a03c1d356c21122343280d6115c1d21
       0xbd376388b5f723fb4c22dfe6cd4375a05a07476444d5819985007e34"
  by (rule IsOnCurveI [where k = "0x5d98f2792333b6642e52ecc4ae59720c09f030caa52095cc300ee2f0828dfeb140e48871f604df05079e17a7775e273bac098df845cc1122"])
     simp_all

lemma P256_generator_on_curve:
  "IsOnCurve P256 0x6b17d1f2e12c4247f8bce6e563a440f277037d812deb33a0f4a13945d898c296
       0x4fe342e2fe1a7f9b8ee7eb4a7c0f9e162bce33576b315ececbb6406837bf51f5"
  by (rule IsOnCurveI [where k = "0x12bdd1ad23dfc833dccf5f6141d6bb4a1f365dc1430b0e600b52dd851938d2d6933106a72efbf035fdaf43963b37fd5456e90c6581a8fb7a0d8a46a3629f0458"])
     simp_all

lemma P256_zero_on_curve:
  "IsOnCurve P256 0 0x66485c780e2f83d72433bd5d84a06bb6541c2af31dae871728bf856a174f93f4"
  by (rule IsOnCurveI [where k = "- 0x28ddbe23f91a186cde31693e44d9577376ba56e1c52cb3f335f4c8dba9b83fbb"])
     simp_all

lemma P256_zero_encoded:
  "bigIntToBase64RawURL 0x66485c780e2f83d72433bd5d84a06bb6541c2af31dae871728bf856a174f93f4
     = ''ZkhceA4vg9ckM71dhKBrtlQcKvMdrocXKL-FahdPk_Q''"
  by (simp add: encode_eval)

lemma P224_generator_encoded:
  "bigIntToBase64RawURL 0xb70e0cbd6bb4bf7f321390b94a03c1d356c21122343280d6115c1d21
     = ''tw4MvWu0v38yE5C5SgPB01bCESI0MoDWEVwdIQ''"
  "bigIntToBase64RawURL 0xbd376388b5f723fb4c22dfe6cd4375a05a07476444d5819985007e34
     = ''vTdjiLX3I_tMIt_mzUN1oFoHR2RE1YGZhQB-NA''"
  by (simp_all add: encode_eval)

lemma textbook_rsa_encoded:
  "bigIntToBase64RawURL 3233 = ''DKE''" "bigIntToBase64RawURL 17 = ''EQ''"
  "bigIntToBase64RawURL 2753 = ''CsE''" "bigIntToBase64RawURL 61 = ''PQ''"
  "bigIntToBase64RawURL 53 = ''NQ''" "bigIntToBase64RawURL 49 = ''MQ''"
  "bigIntToBase64RawURL 38 = ''Jg''" "bigIntToBase64RawURL 3234 = ''DKI''"
  by (simp_all add: encode_eval)

lemmas textbook_rsa_decoded =
  decode_bigInt [of 3233, unfolded textbook_rsa_encoded]
  decode_bigInt [of 17, unfolded textbook_rsa_encoded]
  decode_bigInt [of 2753, unfolded textbook_rsa_encoded]
  decode_bigInt [of 61, unfolded textbook_rsa_encoded]
  decode_bigInt [of 53, unfolded textbook_rsa_encoded]
  decode_bigInt [of 49, unfolded textbook_rsa_encoded]
  decode_bigInt [of 38, unfolded textbook_rsa_encoded]
  decode_bigInt [of 3234, unfolded textbook_rsa_encoded]

lemmas P224_generator_decoded =
  decode_bigInt [of "0xb70e0cbd6bb4bf7f321390b94a03c1d356c21122343280d6115c1d21",
    unfolded P224_generator_encoded]
  decode_bigInt [of "0xbd376388b5f723fb4c22dfe6cd4375a05a07476444d5819985007e34",
    unfolded P224_generator_encoded]

lemma noncanonical_one: "DecodeString ''AR'' = Inr [1]"
  by code_simp

lemma corrupt_modulus: "base64urlTrailingPadding ''!'' = Inl (CorruptInputError 0)"
  by code_simp

lemma one_decoded: "base64urlTrailingPadding ''AQ'' = Inr (big_Bytes 1)"
proof -
  have "bigIntToBase64RawURL 1 = ''AQ''" by (simp add: encode_eval)
  from decode_bigInt [of 1, unfolded this] show ?thesis .
qed

section \<open>Properties of the codec\<close>

subsection \<open>Round trip\<close>

text \<open>
  Claim C1, amended. For every supported key and both settings of
  \<^verbatim>\<open>AsymmetricPrivate\<close>, when the key that the record is to carry (the key itself when
  private material is emitted, its public part otherwise) is reproducible (see
  \<open>reproducible\<close>: positive numbers, a curve among P-256, P-384 and P-521, two RSA primes
  accepted by \<^verbatim>\<open>Validate\<close>, a non-empty secret), \<^verbatim>\<open>KeyMarshal\<close> returns a record, and
  \<^verbatim>\<open>KeyUnmarshal\<close> on that record, with options that request at least what was emitted
  (see \<open>requests_enough\<close>: for an RSA key, private material only when it was emitted),
  returns that key under the same key identifier: same curve and coordinates, scalar or
  seed, modulus, exponents and primes, or secret bytes.
\<close>

theorem C1_round_trip_reproducible:
  assumes "reproducible (emitted key options)" and "requests_enough key options options'"
  shows "\<exists>jwk. KeyMarshal \<lparr>Key = key, KeyID = kid\<rparr> options = Inr jwk
           \<and> KeyUnmarshal jwk options' = Inr \<lparr>Key = emitted key options, KeyID = kid\<rparr>"
proof -
  have "round_trip key kid options options' (emitted key options)"
  proof (cases key)
    case (ECDSAPrivateKey k)
    with assms show ?thesis
      by (cases "AsymmetricPrivate options")
         (simp_all add: emitted_def round_trip_ecdsa_private round_trip_ecdsa_withheld)
  next
    case (ECDSAPublicKey k)
    with assms show ?thesis
      by (simp add: round_trip_ecdsa_public)
  next
    case (Ed25519PrivateKey k)
    show ?thesis
    proof (cases "AsymmetricPrivate options")
      case True
      with assms Ed25519PrivateKey show ?thesis
        by (simp add: emitted_def round_trip_okp_private)
    next
      case False
      with assms Ed25519PrivateKey have "length k = 64"
        by (simp add: emitted_def)
      with False Ed25519PrivateKey show ?thesis
        by (simp add: emitted_def round_trip_okp_withheld)
    qed
  next
    case (Ed25519PublicKey k)
    with assms show ?thesis
      by (simp add: round_trip_okp_public)
  next
    case (RSAPrivateKey k)
    show ?thesis
    proof (cases "AsymmetricPrivate options")
      case True
      with assms RSAPrivateKey show ?thesis
        by (simp add: emitted_def round_trip_rsa_private del: reproducible.simps)
    next
      case False
      with assms RSAPrivateKey
      have "reproducible_rsa (rsa_Public k)" "\<not> AsymmetricPrivate options'"
        by (simp_all add: emitted_def)
      with False RSAPrivateKey show ?thesis
        by (simp add: emitted_def round_trip_rsa_withheld)
    qed
  next
    case (RSAPublicKey k)
    with assms show ?thesis
      by (simp add: round_trip_rsa_public)
  next
    case (ByteSlice k)
    with assms show ?thesis
      by (simp add: round_trip_oct)
  qed (use assms in simp_all)
  then show ?thesis by (simp add: round_trip_def)
qed

text \<open>
  The claim as stated fails. A valid RSA public key is marshalled and its record is
  unmarshalled with \<open>AsymmetricPrivate = true\<close>: the result is a success whose key is nil.
  The generator of P-224, a point of that curve, is marshalled as a public key and
  \<^verbatim>\<open>KeyUnmarshal\<close> rejects the record, because it resolves three curves only. The point
  of P-256 whose first coordinate is zero is marshalled as a public key and
  \<^verbatim>\<open>KeyUnmarshal\<close> rejects the record, because the encoding of zero is the empty string,
  an absent \<open>x\<close>. The empty symmetric key is marshalled with \<open>Symmetric = true\<close> and
  \<^verbatim>\<open>KeyUnmarshal\<close> rejects that record, because its \<open>k\<close> is empty.
\<close>

theorem C1_round_trip_counterexample:
  "KeyMarshal \<lparr>Key = RSAPublicKey \<lparr>pub_N = 3233, pub_E = 17\<rparr>, KeyID = ''k''\<rparr>
      \<lparr>AsymmetricPrivate = False, Symmetric = False\<rparr> =
     Inr \<lparr>ALG = [], CRV = [], D = [], DP = [], DQ = [], E = ''EQ'', K = [], KID = ''k'',
          KTY = ''RSA'', N = ''DKE'', OTH = [], P = [], Q = [], QI = [], X = [], Y = []\<rparr>
   \<and> KeyUnmarshal
       \<lparr>ALG = [], CRV = [], D = [], DP = [], DQ = [], E = ''EQ'', K = [], KID = ''k'',
        KTY = ''RSA'', N = ''DKE'', OTH = [], P = [], Q = [], QI = [], X = [], Y = []\<rparr>
       \<lparr>AsymmetricPrivate = True, Symmetric = False\<rparr> = Inr \<lparr>Key = NilKey, KeyID = ''k''\<rparr>
   \<and> IsOnCurve P224 0xb70e0cbd6bb4bf7f321390b94a03c1d356c21122343280d6115c1d21
       0xbd376388b5f723fb4c22dfe6cd4375a05a07476444d5819985007e34
   \<and> KeyMarshal
       \<lparr>Key = ECDSAPublicKey
          \<lparr>Curve = P224, pub_X = 0xb70e0cbd6bb4bf7f321390b94a03c1d356c21122343280d6115c1d21,
           pub_Y = 0xbd376388b5f723fb4c22dfe6cd4375a05a07476444d5819985007e34\<rparr>,
        KeyID = ''k''\<rparr>
       \<lparr>AsymmetricPrivate = False, Symmetric = False\<rparr> =
     Inr \<lparr>ALG = [], CRV = ''P-224'', D = [], DP = [], DQ = [], E = [], K = [], KID = ''k'',
          KTY = ''EC'', N = [], OTH = [], P = [], Q = [], QI = [],
          X = ''tw4MvWu0v38yE5C5SgPB01bCESI0MoDWEVwdIQ'',
          Y = ''vTdjiLX3I_tMIt_mzUN1oFoHR2RE1YGZhQB-NA''\<rparr>
   \<and> KeyUnmarshal
       \<lparr>ALG = [], CRV = ''P-224'', D = [], DP = [], DQ = [], E = [], K = [], KID = ''k'',
        KTY = ''EC'', N = [], OTH = [], P = [], Q = [], QI = [],
        X = ''tw4MvWu0v38yE5C5SgPB01bCESI0MoDWEVwdIQ'',
        Y = ''vTdjiLX3I_tMIt_mzUN1oFoHR2RE1YGZhQB-NA''\<rparr>
       \<lparr>AsymmetricPrivate = False, Symmetric = False\<rparr> = Inl ErrKeyUnmarshalParameter
   \<and> IsOnCurve P256 0 0x66485c780e2f83d72433bd5d84a06bb6541c2af31dae871728bf856a174f93f4
   \<and> KeyMarshal
       \<lparr>Key = ECDSAPublicKey
          \<lparr>Curve = P256, pub_X = 0,
           pub_Y = 0x66485c780e2f83d72433bd5d84a06bb6541c2af31dae871728bf856a174f93f4\<rparr>,
        KeyID = ''k''\<rparr>
       \<lparr>AsymmetricPrivate = False, Symmetric = False\<rparr> =
     Inr \<lparr>ALG = [], CRV = ''P-256'', D = [], DP = [], DQ = [], E = [], K = [], KID = ''k'',
          KTY = ''EC'', N = [], OTH = [], P = [], Q = [], QI = [], X = [],
          Y = ''ZkhceA4vg9ckM71dhKBrtlQcKvMdrocXKL-FahdPk_Q''\<rparr>
   \<and> KeyUnmarshal
       \<lparr>ALG = [], CRV = ''P-256'', D = [], DP = [], DQ = [], E = [], K = [], KID = ''k'',
        KTY = ''EC'', N = [], OTH = [], P = [], Q = [], QI = [], X = [],
        Y = ''ZkhceA4vg9ckM71dhKBrtlQcKvMdrocXKL-FahdPk_Q''\<rparr>
       \<lparr>AsymmetricPrivate = False, Symmetric = False\<rparr> = Inl ErrKeyUnmarshalParameter
   \<and> KeyMarshal \<lparr>Key = ByteSlice [], KeyID = ''k''\<rparr>
      \<lparr>AsymmetricPrivate = False, Symmetric = True\<rparr> =
     Inr \<lparr>ALG = [], CRV = [], D = [], DP = [], DQ = [], E = [], K = [], KID = ''k'',
          KTY = ''oct'', N = [], OTH = [], P = [], Q = [], QI = [], X = [], Y = []\<rparr>
   \<and> KeyUnmarshal
       \<lparr>ALG = [], CRV = [], D = [], DP = [], DQ = [], E = [], K = [], KID = ''k'',
          KTY = ''oct'', N = [], OTH = [], P = [], Q = [], QI = [], X = [], Y = []\<rparr>
       \<lparr>AsymmetricPrivate = False, Symmetric = True\<rparr> = Inl ErrKeyUnmarshalParameter"
  by (simp add: KeyMarshal_def KeyUnmarshal_def unmarshal_RSA_def unmarshal_EC_def
        unmarshal_oct_def unmarshal_curve_def JWKMarshal_zero_def kty_defs crv_defs
        textbook_rsa_encoded textbook_rsa_decoded P224_generator_encoded
        P224_generator_decoded P224_generator_on_curve P256_zero_encoded
        P256_zero_on_curve)

theorem C1_round_trip_reproducible_witness:
  "reproducible (RSAPrivateKey
       \<lparr>rsa_Public = \<lparr>pub_N = 3233, pub_E = 17\<rparr>, rsa_D = 2753, Primes = [61, 53],
        Precomputed = \<lparr>Dp = 53, Dq = 49, Qinv = 38, CRTValues = []\<rparr>\<rparr>)
   \<and> (\<exists>jwk. KeyMarshal
         \<lparr>Key = RSAPrivateKey
            \<lparr>rsa_Public = \<lparr>pub_N = 3233, pub_E = 17\<rparr>, rsa_D = 2753, Primes = [61, 53],
             Precomputed = \<lparr>Dp = 53, Dq = 49, Qinv = 38, CRTValues = []\<rparr>\<rparr>,
          KeyID = ''k''\<rparr>
         \<lparr>AsymmetricPrivate = True, Symmetric = False\<rparr> = Inr jwk
       \<and> KeyUnmarshal jwk \<lparr>AsymmetricPrivate = True, Symmetric = False\<rparr> =
           Inr \<lparr>Key = RSAPrivateKey
                 \<lparr>rsa_Public = \<lparr>pub_N = 3233, pub_E = 17\<rparr>, rsa_D = 2753,
                  Primes = [61, 53],
                  Precomputed = \<lparr>Dp = 53, Dq = 49, Qinv = 38, CRTValues = []\<rparr>\<rparr>,
                KeyID = ''k''\<rparr>)
   \<and> IsOnCurve P256 0x6b17d1f2e12c4247f8bce6e563a440f277037d812deb33a0f4a13945d898c296
         0x4fe342e2fe1a7f9b8ee7eb4a7c0f9e162bce33576b315ececbb6406837bf51f5
   \<and> (\<exists>jwk. KeyMarshal
         \<lparr>Key = ECDSAPrivateKey
            \<lparr>ecdsa_Public =
               \<lparr>Curve = P256,
                pub_X = 0x6b17d1f2e12c4247f8bce6e563a440f277037d812deb33a0f4a13945d898c296,
                pub_Y = 0x4fe342e2fe1a7f9b8ee7eb4a7c0f9e162bce33576b315ececbb6406837bf51f5\<rparr>,
             ecdsa_D = 1\<rparr>,
          KeyID = ''k''\<rparr>
         \<lparr>AsymmetricPrivate = False, Symmetric = False\<rparr> = Inr jwk
       \<and> KeyUnmarshal jwk \<lparr>AsymmetricPrivate = True, Symmetric = False\<rparr> =
           Inr \<lparr>Key = ECDSAPublicKey
                 \<lparr>Curve = P256,
                  pub_X = 0x6b17d1f2e12c4247f8bce6e563a440f277037d812deb33a0f4a13945d898c296,
                  pub_Y = 0x4fe342e2fe1a7f9b8ee7eb4a7c0f9e162bce33576b315ececbb6406837bf51f5\<rparr>,
                KeyID = ''k''\<rparr>)"
proof -
  let ?rsa = "RSAPrivateKey
       \<lparr>rsa_Public = \<lparr>pub_N = 3233, pub_E = 17\<rparr>, rsa_D = 2753, Primes = [61, 53],
        Precomputed = \<lparr>Dp = 53, Dq = 49, Qinv = 38, CRTValues = []\<rparr>\<rparr>"
  let ?ec = "ECDSAPrivateKey
            \<lparr>ecdsa_Public =
               \<lparr>Curve = P256,
                pub_X = 0x6b17d1f2e12c4247f8bce6e563a440f277037d812deb33a0f4a13945d898c296,
                pub_Y = 0x4fe342e2fe1a7f9b8ee7eb4a7c0f9e162bce33576b315ececbb6406837bf51f5\<rparr>,
             ecdsa_D = 1\<rparr>"
  let ?private = "\<lparr>AsymmetricPrivate = True, Symmetric = False\<rparr>"
  let ?public = "\<lparr>AsymmetricPrivate = False, Symmetric = False\<rparr>"
  have r: "reproducible ?rsa"
    by (simp add: reproducible_rsa_def Validate_def checkPub_def)
  then have r': "reproducible (emitted ?rsa ?private)"
    by (simp add: emitted_def)
  have q: "requests_enough ?rsa ?private ?private"
    by simp
  have e: "reproducible (emitted ?ec ?public)"
    by (simp add: emitted_def reproducible_ecdsa_def)
  have f: "requests_enough ?ec ?public ?private"
    by simp
  from C1_round_trip_reproducible [OF r' q, of "''k''"]
    C1_round_trip_reproducible [OF e f, of "''k''"] r P256_generator_on_curve
  show ?thesis
    by (simp add: emitted_def del: reproducible.simps requests_enough.simps)
qed

subsection \<open>RSA private keys that fail validation\<close>

text \<open>
  Claim C2, amended. For every record with \<open>kty = RSA\<close> in which \<open>n\<close>, \<open>e\<close> and the six
  private fields are present and decode, and whose \<open>oth\<close> entries decode, when
  \<^verbatim>\<open>Validate\<close> rejects the private key built from the decoded values, \<^verbatim>\<open>KeyUnmarshal\<close>
  with \<open>AsymmetricPrivate = true\<close> returns the error of \<^verbatim>\<open>Validate\<close>, wrapped: an error,
  but neither of the kind \<^verbatim>\<open>ErrKeyUnmarshalParameter\<close> nor of the kind
  \<^verbatim>\<open>ErrUnsupportedKeyType\<close>. In particular this happens when \<open>oth\<close> is empty and \<open>p\<close>
  times \<open>q\<close> is not \<open>n\<close>.
\<close>

theorem C2_rsa_validation_error:
  assumes "KTY jwk = ''RSA''" and "AsymmetricPrivate options"
    and "N jwk \<noteq> []" "E jwk \<noteq> []"
    and "D jwk \<noteq> []" "P jwk \<noteq> []" "Q jwk \<noteq> []" "DP jwk \<noteq> []" "DQ jwk \<noteq> []" "QI jwk \<noteq> []"
    and "base64urlTrailingPadding (N jwk) = Inr n" "base64urlTrailingPadding (E jwk) = Inr e"
    and "base64urlTrailingPadding (D jwk) = Inr d"
    and "base64urlTrailingPadding (P jwk) = Inr p" "base64urlTrailingPadding (Q jwk) = Inr q"
    and "base64urlTrailingPadding (DP jwk) = Inr dp"
    and "base64urlTrailingPadding (DQ jwk) = Inr dq"
    and "base64urlTrailingPadding (QI jwk) = Inr qi"
    and "unmarshal_oth (OTH jwk) = Inr oth"
    and "privateKey =
           \<lparr>rsa_Public = \<lparr>pub_N = big_SetBytes n, pub_E = big_Uint64 (big_SetBytes e)\<rparr>,
            rsa_D = big_SetBytes d,
            Primes = [big_SetBytes p, big_SetBytes q] @ map crt_R oth,
            Precomputed = \<lparr>Dp = big_SetBytes dp, Dq = big_SetBytes dq,
                           Qinv = big_SetBytes qi, CRTValues = oth\<rparr>\<rparr>"
  shows "(Validate privateKey = Some err \<longrightarrow>
            KeyUnmarshal jwk options = Inl (RSAValidateError err)
            \<and> \<not> errors_Is (RSAValidateError err) ErrKeyUnmarshalParameter
            \<and> \<not> errors_Is (RSAValidateError err) ErrUnsupportedKeyType)
         \<and> (oth = [] \<and> big_SetBytes p * big_SetBytes q \<noteq> big_SetBytes n \<longrightarrow>
              (\<exists>err. KeyUnmarshal jwk options = Inl (RSAValidateError err)))"
proof -
  have general: "KeyUnmarshal jwk options = Inl (RSAValidateError err')"
    if "Validate privateKey = Some err'" for err'
    using assms that
    by (simp add: KeyUnmarshal_def unmarshal_RSA_def kty_defs)
  have "\<exists>err'. Validate privateKey = Some err'"
    if "oth = []" "big_SetBytes p * big_SetBytes q \<noteq> big_SetBytes n"
    using that assms(20)
    by (intro Validate_modulus [of _ "big_SetBytes p" "big_SetBytes q"]) simp_all
  with general show ?thesis
    by (auto simp: errors_Is_def)
qed

theorem C2_rsa_validation_error_witness:
  "Validate \<lparr>rsa_Public = \<lparr>pub_N = 3233, pub_E = 17\<rparr>, rsa_D = 2753, Primes = [61, 49],
        Precomputed = \<lparr>Dp = 53, Dq = 49, Qinv = 38, CRTValues = []\<rparr>\<rparr> = Some errInvalidModulus
   \<and> KeyUnmarshal
       \<lparr>ALG = [], CRV = [], D = ''CsE'', DP = ''NQ'', DQ = ''MQ'', E = ''EQ'', K = [],
        KID = ''k'', KTY = ''RSA'', N = ''DKE'', OTH = [], P = ''PQ'', Q = ''MQ'', QI = ''Jg'',
        X = [], Y = []\<rparr>
       \<lparr>AsymmetricPrivate = True, Symmetric = False\<rparr> =
     Inl (RSAValidateError errInvalidModulus)"
proof -
  let ?jwk = "\<lparr>ALG = [], CRV = [], D = ''CsE'', DP = ''NQ'', DQ = ''MQ'', E = ''EQ'', K = [],
        KID = ''k'', KTY = ''RSA'', N = ''DKE'', OTH = [], P = ''PQ'', Q = ''MQ'', QI = ''Jg'',
        X = [], Y = []\<rparr>"
  let ?key = "\<lparr>rsa_Public = \<lparr>pub_N = 3233, pub_E = 17\<rparr>, rsa_D = 2753, Primes = [61, 49],
        Precomputed = \<lparr>Dp = 53, Dq = 49, Qinv = 38, CRTValues = []\<rparr>\<rparr>"
  have v: "Validate ?key = Some errInvalidModulus"
    by (simp add: Validate_def checkPub_def)
  have k: "?key =
           \<lparr>rsa_Public = \<lparr>pub_N = big_SetBytes (big_Bytes 3233),
                           pub_E = big_Uint64 (big_SetBytes (big_Bytes 17))\<rparr>,
            rsa_D = big_SetBytes (big_Bytes 2753),
            Primes = [big_SetBytes (big_Bytes 61), big_SetBytes (big_Bytes 49)] @ map crt_R [],
            Precomputed = \<lparr>Dp = big_SetBytes (big_Bytes 53), Dq = big_SetBytes (big_Bytes 49),
                           Qinv = big_SetBytes (big_Bytes 38), CRTValues = []\<rparr>\<rparr>"
    by (simp add: big_Uint64_def)
  from C2_rsa_validation_error [of ?jwk "\<lparr>AsymmetricPrivate = True, Symmetric = False\<rparr>"
      "big_Bytes 3233" "big_Bytes 17" "big_Bytes 2753" "big_Bytes 61" "big_Bytes 49"
      "big_Bytes 53" "big_Bytes 49" "big_Bytes 38" "[]" ?key errInvalidModulus,
      OF _ _ _ _ _ _ _ _ _ _ _ _ _ _ _ _ _ _ _ k]
    v
  show ?thesis
    by (simp add: textbook_rsa_decoded)
qed

text \<open>
  The claim as stated fails: for the textbook key with \<open>n\<close> replaced by \<open>n + 1\<close> the error
  returned wraps the library's "invalid modulus" error and not
  \<^verbatim>\<open>ErrKeyUnmarshalParameter\<close>.
\<close>

theorem C2_rsa_validation_counterexample:
  "KeyUnmarshal
       \<lparr>ALG = [], CRV = [], D = ''CsE'', DP = ''NQ'', DQ = ''MQ'', E = ''EQ'', K = [],
        KID = ''k'', KTY = ''RSA'', N = ''DKI'', OTH = [], P = ''PQ'', Q = ''NQ'', QI = ''Jg'',
        X = [], Y = []\<rparr>
       \<lparr>AsymmetricPrivate = True, Symmetric = False\<rparr> =
     Inl (RSAValidateError errInvalidModulus)
   \<and> \<not> errors_Is (RSAValidateError errInvalidModulus) ErrKeyUnmarshalParameter"
  by (simp add: KeyUnmarshal_def unmarshal_RSA_def kty_defs textbook_rsa_decoded
        Validate_def checkPub_def big_Uint64_def errors_Is_def)

subsection \<open>Marshalling an Ed25519 private key\<close>

text \<open>
  Claim C3. For every Ed25519 private key (64 bytes: the seed, then the public key),
  \<^verbatim>\<open>KeyMarshal\<close> with \<open>AsymmetricPrivate = true\<close> returns the record with \<open>kty = OKP\<close>,
  \<open>crv = Ed25519\<close>, \<open>alg = EdDSA\<close>, \<open>x\<close> the base64url encoding of the 32-byte public
  half and \<open>d\<close> the base64url encoding of the 32-byte seed half, which is not the encoding
  of the whole 64-byte key. With \<open>AsymmetricPrivate = false\<close> the field \<open>d\<close> is empty.
\<close>

theorem C3_ed25519_private_record:
  assumes "length key = 64"
  shows "KeyMarshal \<lparr>Key = Ed25519PrivateKey key, KeyID = kid\<rparr>
                    \<lparr>AsymmetricPrivate = True, Symmetric = symmetric\<rparr> =
           Inr \<lparr>ALG = ''EdDSA'', CRV = ''Ed25519'', D = EncodeToString (take 32 key),
                DP = [], DQ = [], E = [], K = [], KID = kid, KTY = ''OKP'', N = [],
                OTH = [], P = [], Q = [], QI = [], X = EncodeToString (drop 32 key), Y = []\<rparr>
         \<and> KeyMarshal \<lparr>Key = Ed25519PrivateKey key, KeyID = kid\<rparr>
                    \<lparr>AsymmetricPrivate = False, Symmetric = symmetric\<rparr> =
           Inr \<lparr>ALG = ''EdDSA'', CRV = ''Ed25519'', D = [],
                DP = [], DQ = [], E = [], K = [], KID = kid, KTY = ''OKP'', N = [],
                OTH = [], P = [], Q = [], QI = [], X = EncodeToString (drop 32 key), Y = []\<rparr>
         \<and> length (take 32 key) = 32 \<and> length (drop 32 key) = 32
         \<and> EncodeToString (take 32 key) \<noteq> EncodeToString key"
proof -
  have pub: "ed25519_Public key = Inr (drop 32 key)"
    using assms by (simp add: ed25519_Public_def)
  have ne: "EncodeToString (take 32 key) \<noteq> EncodeToString key"
  proof
    assume "EncodeToString (take 32 key) = EncodeToString key"
    then have "take 32 key = key" by (rule EncodeToString_inj)
    then have "length (take 32 key) = length key" by simp
    with assms show False by simp
  qed
  show ?thesis
    using assms ne
    by (simp add: KeyMarshal_def pub JWKMarshal_zero_def ALGEdDSA_def CurveEd25519_def
          KeyTypeOKP_def)
qed

theorem C3_ed25519_private_record_witness:
  "length (replicate 64 (7 :: byte)) = 64
   \<and> KeyMarshal \<lparr>Key = Ed25519PrivateKey (replicate 64 7), KeyID = ''k''\<rparr>
                \<lparr>AsymmetricPrivate = True, Symmetric = False\<rparr> =
       Inr \<lparr>ALG = ''EdDSA'', CRV = ''Ed25519'',
            D = EncodeToString (take 32 (replicate 64 7)),
            DP = [], DQ = [], E = [], K = [], KID = ''k'', KTY = ''OKP'', N = [],
            OTH = [], P = [], Q = [], QI = [],
            X = EncodeToString (drop 32 (replicate 64 7)), Y = []\<rparr>"
  using C3_ed25519_private_record [of "replicate 64 7" "''k''" False] by simp

subsection \<open>Rejected OKP records\<close>

text \<open>
  Claim C4. For every record with \<open>kty = OKP\<close> whose \<open>x\<close> decodes (base64url, trailing
  padding tolerated) to a byte string of a length other than 32, \<^verbatim>\<open>KeyUnmarshal\<close> returns
  the error \<^verbatim>\<open>ErrKeyUnmarshalParameter\<close>; and for every record with \<open>kty = OKP\<close> whose
  \<open>crv\<close> is not \<open>Ed25519\<close>, \<^verbatim>\<open>KeyUnmarshal\<close> returns an error (the same one).
\<close>

theorem C4_okp_rejects:
  "(KTY jwk = ''OKP'' \<and> base64urlTrailingPadding (X jwk) = Inr x \<and> length x \<noteq> 32
      \<longrightarrow> KeyUnmarshal jwk options = Inl ErrKeyUnmarshalParameter)
   \<and> (KTY jwk = ''OKP'' \<and> CRV jwk \<noteq> ''Ed25519''
      \<longrightarrow> KeyUnmarshal jwk options = Inl ErrKeyUnmarshalParameter)"
  by (simp add: KeyUnmarshal_def unmarshal_OKP_def kty_defs crv_defs)

theorem C4_okp_rejects_witness:
  "base64urlTrailingPadding ''AQ'' = Inr [1] \<and> length [1 :: byte] \<noteq> 32
   \<and> KeyUnmarshal (JWKMarshal_zero\<lparr>KTY := ''OKP'', CRV := ''Ed25519'', X := ''AQ''\<rparr>)
        \<lparr>AsymmetricPrivate = False, Symmetric = False\<rparr> = Inl ErrKeyUnmarshalParameter
   \<and> KeyUnmarshal (JWKMarshal_zero\<lparr>KTY := ''OKP'', CRV := ''X25519'', X := ''AQ''\<rparr>)
        \<lparr>AsymmetricPrivate = False, Symmetric = False\<rparr> = Inl ErrKeyUnmarshalParameter"
proof -
  have h: "base64urlTrailingPadding ''AQ'' = Inr [1]" by code_simp
  show ?thesis
    using h
      C4_okp_rejects [of "JWKMarshal_zero\<lparr>KTY := ''OKP'', CRV := ''Ed25519'', X := ''AQ''\<rparr>"
        "[1]" "\<lparr>AsymmetricPrivate = False, Symmetric = False\<rparr>"]
      C4_okp_rejects [of "JWKMarshal_zero\<lparr>KTY := ''OKP'', CRV := ''X25519'', X := ''AQ''\<rparr>"
        "[1]" "\<lparr>AsymmetricPrivate = False, Symmetric = False\<rparr>"]
    by (simp add: JWKMarshal_zero_def)
qed

subsection \<open>Marshalling an Ed25519 public key\<close>

text \<open>
  Claim C5. For every public key \<open>x\<close> (in particular every 32-byte one) and the key
  identifier \<open>k1\<close>, \<^verbatim>\<open>KeyMarshal\<close> on the Ed25519 public key with private material
  withheld returns exactly the record with \<open>kty = OKP\<close>, \<open>crv = Ed25519\<close>, \<open>alg = EdDSA\<close>,
  \<open>x\<close> the unpadded base64url encoding of the key and \<open>kid = k1\<close>; every other field,
  \<open>d\<close> among them, is empty.
\<close>

theorem C5_ed25519_public_record:
  "KeyMarshal \<lparr>Key = Ed25519PublicKey x, KeyID = ''k1''\<rparr>
              \<lparr>AsymmetricPrivate = False, Symmetric = symmetric\<rparr> =
     Inr \<lparr>ALG = ''EdDSA'', CRV = ''Ed25519'', D = [], DP = [], DQ = [], E = [], K = [],
          KID = ''k1'', KTY = ''OKP'', N = [], OTH = [], P = [], Q = [], QI = [],
          X = EncodeToString x, Y = []\<rparr>"
  by (simp add: KeyMarshal_def JWKMarshal_zero_def ALGEdDSA_def CurveEd25519_def
        KeyTypeOKP_def)

subsection \<open>Symmetric keys need the Symmetric option\<close>

text \<open>
  Claim C6. With \<open>Symmetric = false\<close>, \<^verbatim>\<open>KeyMarshal\<close> fails on every raw byte key with
  the error \<^verbatim>\<open>ErrUnsupportedKeyType\<close>, and \<^verbatim>\<open>KeyUnmarshal\<close> fails on every record with
  \<open>kty = oct\<close> with the same error.
\<close>

theorem C6_symmetric_refused:
  "KeyMarshal \<lparr>Key = ByteSlice key, KeyID = kid\<rparr>
              \<lparr>AsymmetricPrivate = priv, Symmetric = False\<rparr> = Inl ErrUnsupportedKeyType
   \<and> KeyUnmarshal (jwk\<lparr>KTY := ''oct''\<rparr>)
              \<lparr>AsymmetricPrivate = priv', Symmetric = False\<rparr> = Inl ErrUnsupportedKeyType"
  by (simp add: KeyMarshal_def KeyUnmarshal_def unmarshal_oct_def KeyTypeEC_def
        KeyTypeOKP_def KeyTypeRSA_def KeyTypeOct_def)

subsection \<open>Key-set assembly\<close>

text \<open>
  Claim C7. \<^verbatim>\<open>JWKSet.JSON\<close> marshals every key of the snapshot with
  \<open>AsymmetricPrivate = false\<close>. When \<^verbatim>\<open>KeyMarshal\<close> fails on no key but with
  \<^verbatim>\<open>ErrUnsupportedKeyType\<close>, the result is the list of the records of the keys it accepts,
  in the order of the snapshot, the other keys dropped. When it fails on a key with another
  error, and on no earlier key so, the result is that error. In particular a snapshot of one
  supported key and one key of an unsupported type, in either order, gives a \<open>keys\<close> array
  of one element. No record of the result carries a private or symmetric field.
\<close>

theorem C7_key_set_assembly:
  "((\<forall>meta \<in> set keys. \<forall>err.
        KeyMarshal meta \<lparr>AsymmetricPrivate = False, Symmetric = False\<rparr> = Inl err
          \<longrightarrow> err = ErrUnsupportedKeyType)
      \<longrightarrow> JWKSet_JSON (Inr keys) =
            Inr \<lparr>Keys = concat (map (\<lambda>meta.
                   case KeyMarshal meta \<lparr>AsymmetricPrivate = False, Symmetric = False\<rparr> of
                     Inl err \<Rightarrow> [] | Inr jwk \<Rightarrow> [jwk]) keys)\<rparr>)
   \<and> ((\<forall>meta \<in> set before. \<forall>err.
        KeyMarshal meta \<lparr>AsymmetricPrivate = False, Symmetric = False\<rparr> = Inl err
          \<longrightarrow> err = ErrUnsupportedKeyType)
       \<and> KeyMarshal failing \<lparr>AsymmetricPrivate = False, Symmetric = False\<rparr> = Inl failure
       \<and> failure \<noteq> ErrUnsupportedKeyType
      \<longrightarrow> JWKSet_JSON (Inr (before @ failing # after)) = Inl failure)
   \<and> (KeyMarshal supported \<lparr>AsymmetricPrivate = False, Symmetric = False\<rparr> = Inr marshalled
       \<and> KeyMarshal unsupported \<lparr>AsymmetricPrivate = False, Symmetric = False\<rparr>
           = Inl ErrUnsupportedKeyType
      \<longrightarrow> JWKSet_JSON (Inr [supported, unsupported]) = Inr \<lparr>Keys = [marshalled]\<rparr>
          \<and> JWKSet_JSON (Inr [unsupported, supported]) = Inr \<lparr>Keys = [marshalled]\<rparr>)
   \<and> (JWKSet_JSON (Inr keys) = Inr jwks
      \<longrightarrow> (\<forall>jwk \<in> set (Keys jwks).
            D jwk = [] \<and> P jwk = [] \<and> Q jwk = [] \<and> DP jwk = [] \<and> DQ jwk = []
            \<and> QI jwk = [] \<and> OTH jwk = [] \<and> K jwk = []))"
proof (intro conjI impI)
  assume "\<forall>meta \<in> set keys. \<forall>err.
        KeyMarshal meta \<lparr>AsymmetricPrivate = False, Symmetric = False\<rparr> = Inl err
          \<longrightarrow> err = ErrUnsupportedKeyType"
  from JSON_loop_supported [OF this, of "[]"]
  show "JWKSet_JSON (Inr keys) =
            Inr \<lparr>Keys = concat (map (\<lambda>meta.
                   case KeyMarshal meta \<lparr>AsymmetricPrivate = False, Symmetric = False\<rparr> of
                     Inl err \<Rightarrow> [] | Inr jwk \<Rightarrow> [jwk]) keys)\<rparr>"
    by (simp add: JWKSet_JSON_def)
next
  assume "(\<forall>meta \<in> set before. \<forall>err.
        KeyMarshal meta \<lparr>AsymmetricPrivate = False, Symmetric = False\<rparr> = Inl err
          \<longrightarrow> err = ErrUnsupportedKeyType)
       \<and> KeyMarshal failing \<lparr>AsymmetricPrivate = False, Symmetric = False\<rparr> = Inl failure
       \<and> failure \<noteq> ErrUnsupportedKeyType"
  then show "JWKSet_JSON (Inr (before @ failing # after)) = Inl failure"
    by (simp add: JWKSet_JSON_def JSON_loop_abort)
next
  assume a: "KeyMarshal supported \<lparr>AsymmetricPrivate = False, Symmetric = False\<rparr> = Inr marshalled
       \<and> KeyMarshal unsupported \<lparr>AsymmetricPrivate = False, Symmetric = False\<rparr>
           = Inl ErrUnsupportedKeyType"
  then show "JWKSet_JSON (Inr [supported, unsupported]) = Inr \<lparr>Keys = [marshalled]\<rparr>"
    by (simp add: JWKSet_JSON_def errors_Is_def)
  from a show "JWKSet_JSON (Inr [unsupported, supported]) = Inr \<lparr>Keys = [marshalled]\<rparr>"
    by (simp add: JWKSet_JSON_def errors_Is_def)
next
  assume a: "JWKSet_JSON (Inr keys) = Inr jwks"
  show "\<forall>jwk \<in> set (Keys jwks).
            D jwk = [] \<and> P jwk = [] \<and> Q jwk = [] \<and> DP jwk = [] \<and> DQ jwk = []
            \<and> QI jwk = [] \<and> OTH jwk = [] \<and> K jwk = []"
  proof
    fix jwk assume m: "jwk \<in> set (Keys jwks)"
    from a have "JSON_loop keys [] = Inr (Keys jwks)"
      by (auto simp: JWKSet_JSON_def split: sum.splits)
    from JSON_loop_public_only [OF this m] obtain meta
      where "KeyMarshal meta \<lparr>AsymmetricPrivate = False, Symmetric = False\<rparr> = Inr jwk"
      by auto
    then show "D jwk = [] \<and> P jwk = [] \<and> Q jwk = [] \<and> DP jwk = [] \<and> DQ jwk = []
            \<and> QI jwk = [] \<and> OTH jwk = [] \<and> K jwk = []"
      by (rule KeyMarshal_public_only)
  qed
qed

theorem C7_key_set_assembly_witness:
  "KeyMarshal \<lparr>Key = Ed25519PublicKey (replicate 32 0), KeyID = ''a''\<rparr>
      \<lparr>AsymmetricPrivate = False, Symmetric = False\<rparr> =
     Inr \<lparr>ALG = ''EdDSA'', CRV = ''Ed25519'', D = [], DP = [], DQ = [], E = [], K = [],
          KID = ''a'', KTY = ''OKP'', N = [], OTH = [], P = [], Q = [], QI = [],
          X = EncodeToString (replicate 32 0), Y = []\<rparr>
   \<and> KeyMarshal \<lparr>Key = OtherKey ''string'', KeyID = ''b''\<rparr>
      \<lparr>AsymmetricPrivate = False, Symmetric = False\<rparr> = Inl ErrUnsupportedKeyType
   \<and> JWKSet_JSON (Inr [\<lparr>Key = Ed25519PublicKey (replicate 32 0), KeyID = ''a''\<rparr>,
                       \<lparr>Key = OtherKey ''string'', KeyID = ''b''\<rparr>]) =
     Inr \<lparr>Keys = [\<lparr>ALG = ''EdDSA'', CRV = ''Ed25519'', D = [], DP = [], DQ = [], E = [],
                     K = [], KID = ''a'', KTY = ''OKP'', N = [], OTH = [], P = [], Q = [],
                     QI = [], X = EncodeToString (replicate 32 0), Y = []\<rparr>]\<rparr>
   \<and> KeyMarshal \<lparr>Key = Ed25519PrivateKey [], KeyID = ''c''\<rparr>
      \<lparr>AsymmetricPrivate = False, Symmetric = False\<rparr> = Inl RuntimePanic
   \<and> JWKSet_JSON (Inr ([\<lparr>Key = OtherKey ''string'', KeyID = ''b''\<rparr>]
                       @ \<lparr>Key = Ed25519PrivateKey [], KeyID = ''c''\<rparr>
                       # [\<lparr>Key = Ed25519PublicKey (replicate 32 0), KeyID = ''a''\<rparr>])) =
     Inl RuntimePanic"
proof -
  let ?options = "\<lparr>AsymmetricPrivate = False, Symmetric = False\<rparr>"
  let ?supported = "\<lparr>Key = Ed25519PublicKey (replicate 32 0), KeyID = ''a''\<rparr>"
  let ?unsupported = "\<lparr>Key = OtherKey ''string'', KeyID = ''b''\<rparr>"
  let ?failing = "\<lparr>Key = Ed25519PrivateKey [], KeyID = ''c''\<rparr>"
  let ?marshalled = "\<lparr>ALG = ''EdDSA'', CRV = ''Ed25519'', D = [], DP = [], DQ = [], E = [],
                  K = [], KID = ''a'', KTY = ''OKP'', N = [], OTH = [], P = [], Q = [],
                  QI = [], X = EncodeToString (replicate 32 0), Y = []\<rparr>"
  have s: "KeyMarshal ?supported ?options = Inr ?marshalled"
    by (simp add: KeyMarshal_def JWKMarshal_zero_def ALGEdDSA_def CurveEd25519_def
          KeyTypeOKP_def)
  have u: "KeyMarshal ?unsupported ?options = Inl ErrUnsupportedKeyType"
    by (simp add: KeyMarshal_def)
  have f: "KeyMarshal ?failing ?options = Inl RuntimePanic"
    by (simp add: KeyMarshal_def ed25519_Public_def)
  from C7_key_set_assembly [of "[?supported, ?unsupported]" "[?unsupported]" ?failing
      RuntimePanic "[?supported]" ?supported ?marshalled ?unsupported] s u f
  show ?thesis
    by simp
qed

subsection \<open>Padding tolerance\<close>

text \<open>
  Claim C8. For every byte string \<open>b\<close>, decoding its unpadded base64url encoding with one
  or two \<open>=\<close> appended succeeds and gives exactly \<open>b\<close>, as decoding the unpadded encoding
  does. The same holds of every string \<open>s\<close> that the unpadded decoder reads as \<open>b\<close>, also
  one that the encoder does not produce.
\<close>

theorem C8_padding_tolerance:
  "base64urlTrailingPadding (EncodeToString b) = Inr b
   \<and> base64urlTrailingPadding (EncodeToString b @ ''='') = Inr b
   \<and> base64urlTrailingPadding (EncodeToString b @ ''=='') = Inr b
   \<and> (DecodeString s = Inr b \<longrightarrow>
        base64urlTrailingPadding s = Inr b
        \<and> base64urlTrailingPadding (s @ ''='') = Inr b
        \<and> base64urlTrailingPadding (s @ ''=='') = Inr b)"
proof -
  have "base64urlTrailingPadding (s @ replicate k CHR ''='') = Inr b"
    if "DecodeString s = Inr b" for k
  proof -
    from that have "CHR ''='' \<notin> set s"
      unfolding DecodeString_def by (rule Decode_no_pad)
    with that show ?thesis
      by (simp add: base64urlTrailingPadding_def TrimRight_pad)
  qed
  from this [of 0] this [of 1] this [of 2]
    base64urlTrailingPadding_padded [of b 0] base64urlTrailingPadding_padded [of b 1]
    base64urlTrailingPadding_padded [of b 2]
  show ?thesis
    by (simp add: numeral_2_eq_2)
qed

theorem C8_padding_tolerance_witness:
  "DecodeString ''AR'' = Inr [1]
   \<and> EncodeToString [1] = ''AQ''
   \<and> base64urlTrailingPadding ''AR='' = Inr [1]
   \<and> base64urlTrailingPadding ''AR=='' = Inr [1]
   \<and> base64urlTrailingPadding ''AQ=='' = Inr [1]"
proof -
  have e: "EncodeToString [1] = ''AQ''"
    by (simp add: encode_def encodeURL_def)
  from C8_padding_tolerance [of "[1]" "''AR''"] noncanonical_one e show ?thesis
    by simp
qed

subsection \<open>RSA records without all private fields\<close>

text \<open>
  Claim C9, amended. For every record with \<open>kty = RSA\<close> whose \<open>n\<close> and \<open>e\<close> are not empty
  and decode, and with \<open>AsymmetricPrivate = true\<close> in the options, if one of the six private
  fields \<open>d\<close>, \<open>p\<close>, \<open>q\<close>, \<open>dp\<close>, \<open>dq\<close>, \<open>qi\<close> is empty, then \<^verbatim>\<open>KeyUnmarshal\<close> returns
  success with a key that is nil: neither an error nor the public key.
\<close>

theorem C9_rsa_nil_key:
  assumes "KTY jwk = ''RSA''" and "N jwk \<noteq> []" "E jwk \<noteq> []"
    and "base64urlTrailingPadding (N jwk) = Inr n" "base64urlTrailingPadding (E jwk) = Inr e"
    and "AsymmetricPrivate options"
    and "D jwk = [] \<or> P jwk = [] \<or> Q jwk = [] \<or> DP jwk = [] \<or> DQ jwk = [] \<or> QI jwk = []"
  shows "KeyUnmarshal jwk options = Inr \<lparr>Key = NilKey, KeyID = KID jwk\<rparr>"
  using assms by (auto simp: KeyUnmarshal_def unmarshal_RSA_def kty_defs)

theorem C9_rsa_nil_key_witness:
  "KeyUnmarshal
       \<lparr>ALG = [], CRV = [], D = ''CsE'', DP = [], DQ = [], E = ''EQ'', K = [], KID = ''k'',
        KTY = ''RSA'', N = ''DKE'', OTH = [], P = [], Q = [], QI = [], X = [], Y = []\<rparr>
       \<lparr>AsymmetricPrivate = True, Symmetric = False\<rparr> = Inr \<lparr>Key = NilKey, KeyID = ''k''\<rparr>"
  using C9_rsa_nil_key [of
       "\<lparr>ALG = [], CRV = [], D = ''CsE'', DP = [], DQ = [], E = ''EQ'', K = [], KID = ''k'',
        KTY = ''RSA'', N = ''DKE'', OTH = [], P = [], Q = [], QI = [], X = [], Y = []\<rparr>"
       "big_Bytes 3233" "big_Bytes 17" "\<lparr>AsymmetricPrivate = True, Symmetric = False\<rparr>"]
  by (simp add: textbook_rsa_decoded)

text \<open>
  The claim as stated fails where \<open>n\<close> is not empty but does not decode: the result is then
  the decoding error.
\<close>

theorem C9_rsa_nil_key_counterexample:
  "KeyUnmarshal
       \<lparr>ALG = [], CRV = [], D = [], DP = [], DQ = [], E = ''EQ'', K = [], KID = ''k'',
        KTY = ''RSA'', N = ''!'', OTH = [], P = [], Q = [], QI = [], X = [], Y = []\<rparr>
       \<lparr>AsymmetricPrivate = True, Symmetric = False\<rparr> = Inl (CorruptInputError 0)"
  by (simp add: KeyUnmarshal_def unmarshal_RSA_def kty_defs corrupt_modulus)

subsection \<open>EC public keys are not checked against their curve\<close>

text \<open>
  Claim C10, amended. For every record with \<open>kty = EC\<close>, \<open>crv\<close> the name of P-256, P-384
  or P-521, and \<open>x\<close> and \<open>y\<close> that are not empty and decode, \<^verbatim>\<open>KeyUnmarshal\<close> with
  \<open>AsymmetricPrivate = false\<close> returns success with the public key on that curve whose
  coordinates are the decoded numbers, whatever they are: there is no test that the point
  is on the curve. The witness is the point \<open>(1, 1)\<close>, which is not on P-256.
\<close>

theorem C10_ec_no_curve_check:
  assumes "KTY jwk = ''EC''" and "curve \<in> {P256, P384, P521}" "CRV jwk = Name curve"
    and "X jwk \<noteq> []" "Y jwk \<noteq> []"
    and "base64urlTrailingPadding (X jwk) = Inr x" "base64urlTrailingPadding (Y jwk) = Inr y"
    and "\<not> AsymmetricPrivate options"
  shows "KeyUnmarshal jwk options =
           Inr \<lparr>Key = ECDSAPublicKey
                  \<lparr>Curve = curve, pub_X = big_SetBytes x, pub_Y = big_SetBytes y\<rparr>,
                KeyID = KID jwk\<rparr>"
  using assms by (simp add: KeyUnmarshal_def unmarshal_EC_def kty_defs unmarshal_curve_Name)

theorem C10_ec_no_curve_check_witness:
  "\<not> IsOnCurve P256 1 1
   \<and> KeyUnmarshal
       \<lparr>ALG = [], CRV = ''P-256'', D = [], DP = [], DQ = [], E = [], K = [], KID = ''k'',
        KTY = ''EC'', N = [], OTH = [], P = [], Q = [], QI = [], X = ''AQ'', Y = ''AQ''\<rparr>
       \<lparr>AsymmetricPrivate = False, Symmetric = False\<rparr> =
     Inr \<lparr>Key = ECDSAPublicKey \<lparr>Curve = P256, pub_X = 1, pub_Y = 1\<rparr>, KeyID = ''k''\<rparr>"
  using C10_ec_no_curve_check [of
       "\<lparr>ALG = [], CRV = ''P-256'', D = [], DP = [], DQ = [], E = [], K = [], KID = ''k'',
        KTY = ''EC'', N = [], OTH = [], P = [], Q = [], QI = [], X = ''AQ'', Y = ''AQ''\<rparr>"
       P256 "big_Bytes 1" "big_Bytes 1" "\<lparr>AsymmetricPrivate = False, Symmetric = False\<rparr>"]
  by (simp add: one_decoded IsOnCurve_def)

text \<open>
  The claim as stated fails where \<open>x\<close> is empty: the empty string decodes, to no bytes, but
  a record without \<open>x\<close> is rejected before any decoding.
\<close>

theorem C10_ec_no_curve_check_counterexample:
  "base64urlTrailingPadding [] = Inr []
   \<and> KeyUnmarshal
       \<lparr>ALG = [], CRV = ''P-256'', D = [], DP = [], DQ = [], E = [], K = [], KID = ''k'',
        KTY = ''EC'', N = [], OTH = [], P = [], Q = [], QI = [], X = [], Y = ''AQ''\<rparr>
       \<lparr>AsymmetricPrivate = False, Symmetric = False\<rparr> = Inl ErrKeyUnmarshalParameter"
  by (simp add: KeyUnmarshal_def unmarshal_EC_def kty_defs base64urlTrailingPadding_def
        TrimRight_def DecodeString_def)

end
